theory Spec2Isabelle
  imports Main "HOL-Library.AList"
begin

section \<open>Version policy (pkg/version/version.go)\<close>

text \<open>
  \<^verbatim>\<open>FileRequirement\<close>, \<^verbatim>\<open>Options\<close> and \<^verbatim>\<open>Config\<close> of package version. The Go map
  \<^verbatim>\<open>Configs\<close> is a partial function from version strings to configurations; a
  lookup of a missing key is \<open>None\<close> (Go's \<^verbatim>\<open>ok == false\<close>).
\<close>

record FileRequirement =
  File :: string
  Required :: bool

record version_Options =
  Docked :: bool
  Freefloating :: bool

record Config =
  Version :: string
  GBFSRequired :: bool
  Files :: "version_Options \<Rightarrow> FileRequirement list"

definition req :: "string \<Rightarrow> bool \<Rightarrow> FileRequirement" where
  "req f r = \<lparr>File = f, Required = r\<rparr>"

definition files_1_0 :: "version_Options \<Rightarrow> FileRequirement list" where
  "files_1_0 opts =
    [req ''system_information'' True,
     req ''station_information'' (Docked opts),
     req ''station_status'' (Docked opts),
     req ''free_bike_status'' (Freefloating opts),
     req ''system_hours'' False,
     req ''system_calendar'' False,
     req ''system_regions'' False,
     req ''system_pricing_plans'' False,
     req ''system_alerts'' False]"

definition files_1_1 :: "version_Options \<Rightarrow> FileRequirement list" where
  "files_1_1 opts =
    [req ''gbfs_versions'' False,
     req ''system_information'' True,
     req ''station_information'' (Docked opts),
     req ''station_status'' (Docked opts),
     req ''free_bike_status'' (Freefloating opts),
     req ''system_hours'' False,
     req ''system_calendar'' False,
     req ''system_regions'' False,
     req ''system_pricing_plans'' False,
     req ''system_alerts'' False]"

definition files_2_1 :: "version_Options \<Rightarrow> FileRequirement list" where
  "files_2_1 opts =
    [req ''gbfs_versions'' False,
     req ''system_information'' True,
     req ''vehicle_types'' False,
     req ''station_information'' (Docked opts),
     req ''station_status'' (Docked opts),
     req ''free_bike_status'' (Freefloating opts),
     req ''system_hours'' False,
     req ''system_calendar'' False,
     req ''system_regions'' False,
     req ''system_pricing_plans'' False,
     req ''system_alerts'' False,
     req ''geofencing_zones'' False]"

definition files_3_0 :: "version_Options \<Rightarrow> FileRequirement list" where
  "files_3_0 opts =
    [req ''manifest'' False,
     req ''gbfs_versions'' False,
     req ''system_information'' True,
     req ''vehicle_types'' False,
     req ''station_information'' (Docked opts),
     req ''station_status'' (Docked opts),
     req ''vehicle_status'' (Freefloating opts),
     req ''system_regions'' False,
     req ''system_pricing_plans'' False,
     req ''system_alerts'' False,
     req ''geofencing_zones'' False]"

definition files_3_1_RC2 :: "version_Options \<Rightarrow> FileRequirement list" where
  "files_3_1_RC2 opts =
    [req ''manifest'' False,
     req ''gbfs_versions'' False,
     req ''system_information'' True,
     req ''vehicle_types'' False,
     req ''station_information'' (Docked opts),
     req ''station_status'' (Docked opts),
     req ''vehicle_status'' (Freefloating opts),
     req ''vehicle_availability'' False,
     req ''system_regions'' False,
     req ''system_pricing_plans'' False,
     req ''system_alerts'' False,
     req ''geofencing_zones'' False]"

text \<open>
  The table \<^verbatim>\<open>Configs\<close>. The entries of 1.1 and 2.0 list the same files, and so do
  those of 2.1, 2.2 and 2.3; each entry keeps its own version string and flag.
\<close>

definition Configs :: "string \<Rightarrow> Config option" where
  "Configs v =
    (if v = ''1.0'' then Some \<lparr>Version = ''1.0'', GBFSRequired = False, Files = files_1_0\<rparr>
     else if v = ''1.1'' then Some \<lparr>Version = ''1.1'', GBFSRequired = False, Files = files_1_1\<rparr>
     else if v = ''2.0'' then Some \<lparr>Version = ''2.0'', GBFSRequired = True, Files = files_1_1\<rparr>
     else if v = ''2.1'' then Some \<lparr>Version = ''2.1'', GBFSRequired = True, Files = files_2_1\<rparr>
     else if v = ''2.2'' then Some \<lparr>Version = ''2.2'', GBFSRequired = True, Files = files_2_1\<rparr>
     else if v = ''2.3'' then Some \<lparr>Version = ''2.3'', GBFSRequired = True, Files = files_2_1\<rparr>
     else if v = ''3.0'' then Some \<lparr>Version = ''3.0'', GBFSRequired = True, Files = files_3_0\<rparr>
     else if v = ''3.1-RC2'' then
       Some \<lparr>Version = ''3.1-RC2'', GBFSRequired = True, Files = files_3_1_RC2\<rparr>
     else None)"

text \<open>\<^verbatim>\<open>GetFileRequirements\<close>: an unknown version takes the entry of \<^verbatim>\<open>"3.0"\<close>.\<close>

definition GetFileRequirements :: "string \<Rightarrow> version_Options \<Rightarrow> FileRequirement list" where
  "GetFileRequirements v opts =
    (case Configs v of
       Some cfg \<Rightarrow> Files cfg opts
     | None \<Rightarrow> (case Configs ''3.0'' of Some cfg \<Rightarrow> Files cfg opts | None \<Rightarrow> []))"

definition IsGBFSRequired :: "string \<Rightarrow> bool" where
  "IsGBFSRequired v = (case Configs v of Some cfg \<Rightarrow> GBFSRequired cfg | None \<Rightarrow> True)"

definition SupportedVersions :: "string list" where
  "SupportedVersions = [''1.0'', ''1.1'', ''2.0'', ''2.1'', ''2.2'', ''2.3'', ''3.0'', ''3.1-RC2'']"

definition IsV3OrLater :: "string \<Rightarrow> bool" where
  "IsV3OrLater v = (v = ''3.0'' \<or> v = ''3.1-RC2'' \<or> v = ''3.1'')"

definition GetVehicleStatusFileName :: "string \<Rightarrow> string" where
  "GetVehicleStatusFileName v = (if IsV3OrLater v then ''vehicle_status'' else ''free_bike_status'')"

definition station_or_vehicle_based :: "string \<Rightarrow> bool" where
  "station_or_vehicle_based f =
    (f = ''station_information'' \<or> f = ''station_status'' \<or>
     f = ''free_bike_status'' \<or> f = ''vehicle_status'')"

section \<open>JSON values and Go's standard library\<close>

text \<open>
  A decoded JSON document, as \<^verbatim>\<open>json.Unmarshal\<close> builds it in an \<^verbatim>\<open>interface{}\<close>:
  \<^verbatim>\<open>nil\<close>, \<^verbatim>\<open>bool\<close>, \<^verbatim>\<open>float64\<close>, \<^verbatim>\<open>string\<close>, \<^verbatim>\<open>[]interface{}\<close> and
  \<^verbatim>\<open>map[string]interface{}\<close>; the coercer also stores \<^verbatim>\<open>int64\<close> values. The type
  \<open>'f\<close> stands for \<^verbatim>\<open>float64\<close>. A Go map is an association list read with
  \<open>map_of\<close>, written with \<open>AList.update\<close> and \<open>AList.delete\<close>.
\<close>

datatype 'f jv =
    JNull
  | JBool bool
  | JFloat 'f
  | JInt int
  | JStr string
  | JArr "'f jv list"
  | JObj "(string \<times> 'f jv) list"

type_synonym 'f jobj = "(string \<times> 'f jv) list"

text \<open>Type assertions with the comma-ok form; a missing key reads as \<^verbatim>\<open>nil\<close>.\<close>

definition as_obj :: "'f jv option \<Rightarrow> 'f jobj option" where
  "as_obj x = (case x of Some (JObj m) \<Rightarrow> Some m | _ \<Rightarrow> None)"

definition as_arr :: "'f jv option \<Rightarrow> 'f jv list option" where
  "as_arr x = (case x of Some (JArr xs) \<Rightarrow> Some xs | _ \<Rightarrow> None)"

definition as_str :: "'f jv option \<Rightarrow> string option" where
  "as_str x = (case x of Some (JStr s) \<Rightarrow> Some s | _ \<Rightarrow> None)"

definition is_bool :: "'f jv \<Rightarrow> bool" where
  "is_bool x = (case x of JBool b \<Rightarrow> True | _ \<Rightarrow> False)"

text \<open>\<^verbatim>\<open>fmt.Sprintf("%d", n)\<close> for an index or a count.\<close>

definition digit_char :: "nat \<Rightarrow> char" where
  "digit_char d = char_of (48 + d)"

fun itoa :: "nat \<Rightarrow> string" where
  "itoa n = (if n < 10 then [digit_char n] else itoa (n div 10) @ [digit_char (n mod 10)])"

declare itoa.simps [simp del]

definition itoa_int :: "int \<Rightarrow> string" where
  "itoa_int i = (if i < 0 then CHR ''-'' # itoa (nat (- i)) else itoa (nat i))"

text \<open>\<^verbatim>\<open>strings.HasSuffix\<close> and \<^verbatim>\<open>strings.TrimSuffix\<close>.\<close>

definition HasSuffix :: "string \<Rightarrow> string \<Rightarrow> bool" where
  "HasSuffix s suf = (length suf \<le> length s \<and> drop (length s - length suf) s = suf)"

definition TrimSuffix :: "string \<Rightarrow> string \<Rightarrow> string" where
  "TrimSuffix s suf = (if HasSuffix s suf then take (length s - length suf) s else s)"

section \<open>Retriever (pkg/fetcher/fetcher.go)\<close>

text \<open>
  One HTTP exchange, as \<^verbatim>\<open>Fetch\<close> sees it: building the request fails, applying the
  authentication fails, \<^verbatim>\<open>client.Do\<close> fails, or a response arrives with a status code
  and a body that \<^verbatim>\<open>io.ReadAll\<close> reads or fails to read. The strings are the texts of
  the underlying errors. \<open>'b\<close> is the type of byte buffers.
\<close>

datatype 'b http_outcome =
    RequestError string
  | AuthError string
  | TransportError string
  | Response int "string + 'b"

record 'b FetchResult =
  fr_URL :: string
  fr_Body :: "'b option"
  fr_StatusCode :: int
  fr_Error :: "string option"
  fr_Exists :: bool

definition empty_FetchResult :: "string \<Rightarrow> 'b FetchResult" where
  "empty_FetchResult url =
    \<lparr>fr_URL = url, fr_Body = None, fr_StatusCode = 0, fr_Error = None, fr_Exists = False\<rparr>"

text \<open>
  \<^verbatim>\<open>Fetch\<close>: status 404 is the result \<^verbatim>\<open>Exists = false\<close> with no error; every other
  status but 200 is an error.
\<close>

definition Fetch :: "(string \<Rightarrow> 'b http_outcome) \<Rightarrow> string \<Rightarrow> 'b FetchResult" where
  "Fetch http targetURL =
    (let result = empty_FetchResult targetURL in
     case http targetURL of
       RequestError e \<Rightarrow> result\<lparr>fr_Error := Some (''failed to create request: '' @ e)\<rparr>
     | AuthError e \<Rightarrow> result\<lparr>fr_Error := Some (''failed to apply authentication: '' @ e)\<rparr>
     | TransportError e \<Rightarrow> result\<lparr>fr_Error := Some (''failed to fetch URL: '' @ e)\<rparr>
     | Response code body \<Rightarrow>
         (let result = result\<lparr>fr_StatusCode := code\<rparr> in
          if code = 404 then result\<lparr>fr_Exists := False\<rparr>
          else if code \<noteq> 200 then
            result\<lparr>fr_Error := Some (''unexpected status code: '' @ itoa_int code)\<rparr>
          else (case body of
              Inl e \<Rightarrow> result\<lparr>fr_Error := Some (''failed to read response body: '' @ e)\<rparr>
            | Inr b \<Rightarrow> result\<lparr>fr_Body := Some b, fr_Exists := True\<rparr>)))"

text \<open>
  The validator's calls of \<^verbatim>\<open>Fetch\<close> are recorded: \<open>Fetch_logged\<close> appends the URL
  to the list of fetches made so far, and the validator's functions pass that list on.
\<close>

definition Fetch_logged :: "(string \<Rightarrow> 'b http_outcome) \<Rightarrow> string \<Rightarrow> string list \<Rightarrow>
    'b FetchResult \<times> string list" where
  "Fetch_logged http targetURL fetched = (Fetch http targetURL, fetched @ [targetURL])"

definition BuildFeedURL :: "string \<Rightarrow> string \<Rightarrow> string" where
  "BuildFeedURL baseURL feedName =
    (if HasSuffix baseURL ''/'' then baseURL @ feedName @ ''.json''
     else if HasSuffix baseURL ''gbfs.json'' then
       TrimSuffix baseURL ''gbfs.json'' @ feedName @ ''.json''
     else baseURL @ ''/'' @ feedName @ ''.json'')"

section \<open>Typed documents (pkg/gbfs/types.go)\<close>

text \<open>The fields of the typed documents that the validator reads.\<close>

record FeedInfo =
  feed_Name :: string
  feed_URL :: string

record GBFSFeed =
  gbfs_TTL :: int
  gbfs_Version :: string
  gbfs_Feeds :: "FeedInfo list"

record VehicleType =
  VehicleTypeID :: string
  PropulsionType :: string
  DefaultPricingPlanID :: string

record 'f Vehicle =
  veh_VehicleTypeID :: string
  veh_PricingPlanID :: string
  veh_CurrentRangeMeters :: 'f

record 'f VehicleStatusData =
  Vehicles :: "'f Vehicle list"
  Bikes :: "'f Vehicle list"

definition GetVehicles :: "'f VehicleStatusData \<Rightarrow> 'f Vehicle list" where
  "GetVehicles d = (if length (Vehicles d) > 0 then Vehicles d else Bikes d)"

text \<open>
  What the code takes from Go's standard library and from the decoding of the typed
  documents, none of it code of this repository: \<^verbatim>\<open>json.Unmarshal\<close> into a
  \<^verbatim>\<open>map[string]interface{}\<close> (a JSON \<^verbatim>\<open>null\<close> gives the nil map, read like the empty
  one) and into each typed document (\<open>Inl\<close> carries the error's text),
  \<^verbatim>\<open>json.Marshal\<close>, \<^verbatim>\<open>strconv.ParseInt(s, 10, 64)\<close>, \<^verbatim>\<open>strconv.ParseFloat(s, 64)\<close>,
  \<^verbatim>\<open>strings.TrimSpace\<close>, \<^verbatim>\<open>strings.ToLower\<close>, \<^verbatim>\<open>time.Parse\<close> (giving the
  Unix seconds of the parsed time), the conversions \<^verbatim>\<open>int64(v)\<close> and \<^verbatim>\<open>float64(i)\<close>,
  the comparisons \<^verbatim>\<open>v != 0\<close> and \<^verbatim>\<open>v != w\<close> on \<^verbatim>\<open>float64\<close>, and the HTTP exchange.
  The decoders of the typed documents give the lists the validator reads: the feeds of
  \<^verbatim>\<open>gbfs.json\<close>, \<^verbatim>\<open>Data.VehicleTypes\<close>, \<^verbatim>\<open>Data\<close> of a vehicle status document,
  the \<^verbatim>\<open>PlanID\<close>s of \<^verbatim>\<open>Data.Plans\<close>, and the \<^verbatim>\<open>StationID\<close>s of \<^verbatim>\<open>Data.Stations\<close>.
\<close>

record ('b, 'f) go_env =
  http :: "string \<Rightarrow> 'b http_outcome"
  Unmarshal :: "'b \<Rightarrow> string + 'f jobj"
  Marshal :: "'f jobj \<Rightarrow> string + 'b"
  decodeGBFSFeed :: "'b \<Rightarrow> string + GBFSFeed"
  decodeVehicleTypes :: "'b \<Rightarrow> string + VehicleType list"
  decodeVehicleStatus :: "'b \<Rightarrow> string + 'f VehicleStatusData"
  decodePricingPlans :: "'b \<Rightarrow> string + string list"
  decodeStationInformation :: "'b \<Rightarrow> string + string list"
  decodeStationStatus :: "'b \<Rightarrow> string + string list"
  ParseInt :: "string \<Rightarrow> int option"
  ParseFloat :: "string \<Rightarrow> 'f option"
  TrimSpace :: "string \<Rightarrow> string"
  ToLower :: "string \<Rightarrow> string"
  timeParse :: "string \<Rightarrow> string \<Rightarrow> int option"
  float_to_int64 :: "'f \<Rightarrow> int"
  int64_to_float :: "int \<Rightarrow> 'f"
  float_nonzero :: "'f \<Rightarrow> bool"
  float_neq :: "'f \<Rightarrow> 'f \<Rightarrow> bool"

section \<open>Structural validator (package validator)\<close>

datatype ValidationSeverity = SeverityError | SeverityWarning | SeverityInfo

record ValidationError =
  Severity :: ValidationSeverity
  Message :: string
  InstancePath :: string

definition verr :: "ValidationSeverity \<Rightarrow> string \<Rightarrow> string \<Rightarrow> ValidationError" where
  "verr sev msg path = \<lparr>Severity = sev, Message = msg, InstancePath = path\<rparr>"

text \<open>\<^verbatim>\<open>if _, ok := m[key]; !ok { errors = append(errors, ...) }\<close>\<close>

definition require_key :: "'f jobj \<Rightarrow> string \<Rightarrow> ValidationError \<Rightarrow> ValidationError list" where
  "require_key m key e = (if map_of m key = None then [e] else [])"

definition validateSystemInformation :: "'f jobj \<Rightarrow> ValidationError list" where
  "validateSystemInformation data =
    (case as_obj (map_of data ''data'') of
       None \<Rightarrow> []
     | Some dataObj \<Rightarrow>
         require_key dataObj ''system_id''
           (verr SeverityError ''system_id is required'' ''/data/system_id'') @
         require_key dataObj ''timezone''
           (verr SeverityError ''timezone is required'' ''/data/timezone'') @
         require_key dataObj ''name''
           (verr SeverityError ''name is required'' ''/data/name''))"

text \<open>
  The loops \<^verbatim>\<open>for i, s := range stations\<close> append the issues of entry \<open>i\<close> after those
  of the entries before it; an entry that is not an object is skipped.
\<close>

definition stationInformation_entry :: "nat \<Rightarrow> 'f jv \<Rightarrow> ValidationError list" where
  "stationInformation_entry i s =
    (case s of
       JObj station \<Rightarrow>
         require_key station ''station_id''
           (verr SeverityError ''station_id is required''
              (''/data/stations/'' @ itoa i @ ''/station_id'')) @
         require_key station ''lat''
           (verr SeverityError ''lat is required'' (''/data/stations/'' @ itoa i @ ''/lat'')) @
         require_key station ''lon''
           (verr SeverityError ''lon is required'' (''/data/stations/'' @ itoa i @ ''/lon''))
     | _ \<Rightarrow> [])"

definition validateStationInformation :: "'f jobj \<Rightarrow> ValidationError list" where
  "validateStationInformation data =
    (case as_obj (map_of data ''data'') of
       None \<Rightarrow> []
     | Some dataObj \<Rightarrow>
         (case as_arr (map_of dataObj ''stations'') of
            None \<Rightarrow> [verr SeverityError ''stations array is required'' ''/data/stations'']
          | Some stations \<Rightarrow>
              concat (map (\<lambda>(i, s). stationInformation_entry i s) (enumerate 0 stations))))"

definition bool_field_issue :: "nat \<Rightarrow> 'f jobj \<Rightarrow> string \<Rightarrow> ValidationError list" where
  "bool_field_issue i station field =
    (case map_of station field of
       None \<Rightarrow> []
     | Some val \<Rightarrow>
         if is_bool val then []
         else [verr SeverityError (field @ '' must be a boolean'')
                 (''/data/stations/'' @ itoa i @ ''/'' @ field)])"

definition stationStatus_entry :: "nat \<Rightarrow> 'f jv \<Rightarrow> ValidationError list" where
  "stationStatus_entry i s =
    (case s of
       JObj station \<Rightarrow>
         require_key station ''station_id''
           (verr SeverityError ''station_id is required''
              (''/data/stations/'' @ itoa i @ ''/station_id'')) @
         concat (map (bool_field_issue i station)
           [''is_installed'', ''is_renting'', ''is_returning''])
     | _ \<Rightarrow> [])"

definition validateStationStatus :: "'f jobj \<Rightarrow> ValidationError list" where
  "validateStationStatus data =
    (case as_obj (map_of data ''data'') of
       None \<Rightarrow> []
     | Some dataObj \<Rightarrow>
         (case as_arr (map_of dataObj ''stations'') of
            None \<Rightarrow> [verr SeverityError ''stations array is required'' ''/data/stations'']
          | Some stations \<Rightarrow>
              concat (map (\<lambda>(i, s). stationStatus_entry i s) (enumerate 0 stations))))"

definition vehicleStatus_entry :: "nat \<Rightarrow> 'f jv \<Rightarrow> ValidationError list" where
  "vehicleStatus_entry i v =
    (case v of
       JObj vehicle \<Rightarrow>
         (let hasID = (map_of vehicle ''vehicle_id'' \<noteq> None \<or> map_of vehicle ''bike_id'' \<noteq> None)
          in if \<not> hasID then
               [verr SeverityError ''vehicle_id or bike_id is required''
                  (''/data/vehicles/'' @ itoa i)]
             else [])
     | _ \<Rightarrow> [])"

definition validateVehicleStatus :: "'f jobj \<Rightarrow> ValidationError list" where
  "validateVehicleStatus data =
    (case as_obj (map_of data ''data'') of
       None \<Rightarrow> []
     | Some dataObj \<Rightarrow>
         (case (case as_arr (map_of dataObj ''vehicles'') of
                  Some v \<Rightarrow> Some v
                | None \<Rightarrow> as_arr (map_of dataObj ''bikes'')) of
            None \<Rightarrow> [verr SeverityError ''vehicles or bikes array is required'' ''/data/vehicles'']
          | Some vehicles \<Rightarrow>
              concat (map (\<lambda>(i, v). vehicleStatus_entry i v) (enumerate 0 vehicles))))"

definition isMotorized :: "string \<Rightarrow> bool" where
  "isMotorized propulsionType =
    (propulsionType \<in> set [''electric'', ''electric_assist'', ''combustion'',
       ''combustion_diesel'', ''hybrid'', ''plug_in_hybrid'', ''hydrogen_fuel_cell''])"

definition vehicleTypes_entry :: "nat \<Rightarrow> 'f jv \<Rightarrow> ValidationError list" where
  "vehicleTypes_entry i vt =
    (case vt of
       JObj vehicleType \<Rightarrow>
         require_key vehicleType ''vehicle_type_id''
           (verr SeverityError ''vehicle_type_id is required''
              (''/data/vehicle_types/'' @ itoa i @ ''/vehicle_type_id'')) @
         require_key vehicleType ''form_factor''
           (verr SeverityError ''form_factor is required''
              (''/data/vehicle_types/'' @ itoa i @ ''/form_factor'')) @
         require_key vehicleType ''propulsion_type''
           (verr SeverityError ''propulsion_type is required''
              (''/data/vehicle_types/'' @ itoa i @ ''/propulsion_type'')) @
         (case as_str (map_of vehicleType ''propulsion_type'') of
            Some pt \<Rightarrow>
              if isMotorized pt then
                require_key vehicleType ''max_range_meters''
                  (verr SeverityWarning ''max_range_meters is required for motorized vehicles''
                     (''/data/vehicle_types/'' @ itoa i @ ''/max_range_meters''))
              else []
          | None \<Rightarrow> [])
     | _ \<Rightarrow> [])"

definition validateVehicleTypes :: "'f jobj \<Rightarrow> ValidationError list" where
  "validateVehicleTypes data =
    (case as_obj (map_of data ''data'') of
       None \<Rightarrow> []
     | Some dataObj \<Rightarrow>
         (case as_arr (map_of dataObj ''vehicle_types'') of
            None \<Rightarrow>
              [verr SeverityError ''vehicle_types array is required'' ''/data/vehicle_types'']
          | Some vehicleTypes \<Rightarrow>
              concat (map (\<lambda>(i, vt). vehicleTypes_entry i vt) (enumerate 0 vehicleTypes))))"

definition validateFileStructure :: "('b, 'f) go_env \<Rightarrow> 'b \<Rightarrow> string \<Rightarrow> ValidationError list" where
  "validateFileStructure env data feedType =
    (case Unmarshal env data of
       Inl err \<Rightarrow> [verr SeverityError (''Invalid JSON: '' @ err) []]
     | Inr jsonData \<Rightarrow>
         require_key jsonData ''last_updated''
           (verr SeverityError ''last_updated is required'' ''/last_updated'') @
         require_key jsonData ''ttl'' (verr SeverityWarning ''ttl is recommended'' ''/ttl'') @
         require_key jsonData ''data'' (verr SeverityError ''data object is required'' ''/data'') @
         (if feedType = ''system_information'' then validateSystemInformation jsonData
          else if feedType = ''station_information'' then validateStationInformation jsonData
          else if feedType = ''station_status'' then validateStationStatus jsonData
          else if feedType = ''vehicle_status'' \<or> feedType = ''free_bike_status'' then
            validateVehicleStatus jsonData
          else if feedType = ''vehicle_types'' then validateVehicleTypes jsonData
          else []))"

section \<open>Normalizer (package coerce)\<close>

record coerce_Options =
  CoerceBooleans :: bool
  CoerceTimestamps :: bool
  CoerceNumericStrings :: bool
  CoerceCoordinates :: bool
  TreatNullAsAbsent :: bool
  AllowExtraFields :: bool
  CoerceEmptyArrays :: bool

definition DefaultLenientOptions :: coerce_Options where
  "DefaultLenientOptions =
    \<lparr>CoerceBooleans = True, CoerceTimestamps = True, CoerceNumericStrings = True,
     CoerceCoordinates = True, TreatNullAsAbsent = True, AllowExtraFields = True,
     CoerceEmptyArrays = True\<rparr>"

definition StrictOptions :: coerce_Options where
  "StrictOptions =
    \<lparr>CoerceBooleans = False, CoerceTimestamps = False, CoerceNumericStrings = False,
     CoerceCoordinates = False, TreatNullAsAbsent = False, AllowExtraFields = False,
     CoerceEmptyArrays = False\<rparr>"

record 'f Coercion =
  c_Path :: string
  c_Field :: string
  c_FromType :: string
  c_ToType :: string
  c_From :: "'f jv"
  c_To :: "'f jv"

text \<open>\<^verbatim>\<open>fmt.Sprintf("%T", v)\<close>\<close>

definition typeName :: "'f jv \<Rightarrow> string" where
  "typeName v =
    (case v of
       JNull \<Rightarrow> ''<nil>''
     | JBool b \<Rightarrow> ''bool''
     | JFloat f \<Rightarrow> ''float64''
     | JInt i \<Rightarrow> ''int64''
     | JStr s \<Rightarrow> ''string''
     | JArr xs \<Rightarrow> ''[]interface {}''
     | JObj m \<Rightarrow> ''map[string]interface {}'')"

definition logCoercion :: "string \<Rightarrow> string \<Rightarrow> 'f jv \<Rightarrow> 'f jv \<Rightarrow> 'f Coercion" where
  "logCoercion path field from to =
    \<lparr>c_Path = path, c_Field = field, c_FromType = typeName from, c_ToType = typeName to,
     c_From = from, c_To = to\<rparr>"

text \<open>
  The five conversions. Each returns the converted value and whether the caller is to
  store and log it. The cases \<^verbatim>\<open>int\<close> and \<^verbatim>\<open>int64\<close> of the type switches are one
  case here: a value of Go type \<^verbatim>\<open>int\<close> is never stored in a document.
\<close>

definition coerceToBool :: "('b, 'f) go_env \<Rightarrow> 'f jv \<Rightarrow> bool \<times> bool" where
  "coerceToBool env val =
    (case val of
       JBool v \<Rightarrow> (v, False)
     | JFloat v \<Rightarrow> (float_nonzero env v, True)
     | JInt v \<Rightarrow> (v \<noteq> 0, True)
     | JStr v \<Rightarrow>
         (let lower = ToLower env (TrimSpace env v) in
          if lower \<in> set [''true'', ''1'', ''yes'', ''on''] then (True, True)
          else if lower \<in> set [''false'', ''0'', ''no'', ''off'', []] then (False, True)
          else (False, False))
     | _ \<Rightarrow> (False, False))"

definition coerceToInt :: "('b, 'f) go_env \<Rightarrow> 'f jv \<Rightarrow> int \<times> bool" where
  "coerceToInt env val =
    (case val of
       JFloat v \<Rightarrow> (float_to_int64 env v, False)
     | JInt v \<Rightarrow> (v, False)
     | JStr v \<Rightarrow>
         (case ParseInt env (TrimSpace env v) of
            Some i \<Rightarrow> (i, True)
          | None \<Rightarrow>
              (case ParseFloat env (TrimSpace env v) of
                 Some f \<Rightarrow> (float_to_int64 env f, True)
               | None \<Rightarrow> (0, False)))
     | _ \<Rightarrow> (0, False))"

definition coerceToFloat :: "('b, 'f) go_env \<Rightarrow> 'f jv \<Rightarrow> 'f \<times> bool" where
  "coerceToFloat env val =
    (case val of
       JFloat v \<Rightarrow> (v, False)
     | JInt v \<Rightarrow> (int64_to_float env v, True)
     | JStr v \<Rightarrow>
         (case ParseFloat env (TrimSpace env v) of
            Some f \<Rightarrow> (f, True)
          | None \<Rightarrow> (int64_to_float env 0, False))
     | _ \<Rightarrow> (int64_to_float env 0, False))"

definition coerceToNumber :: "('b, 'f) go_env \<Rightarrow> 'f jv \<Rightarrow> 'f jv \<times> bool" where
  "coerceToNumber env val =
    (case val of
       JFloat v \<Rightarrow> (val, False)
     | JInt v \<Rightarrow> (val, False)
     | JStr v \<Rightarrow>
         (let s = TrimSpace env v in
          case ParseInt env s of
            Some i \<Rightarrow> (JInt i, True)
          | None \<Rightarrow>
              (case ParseFloat env s of
                 Some f \<Rightarrow> (JFloat f, True)
               | None \<Rightarrow> (val, False)))
     | _ \<Rightarrow> (val, False))"

definition RFC3339 :: string where
  "RFC3339 = ''2006-01-02T15:04:05Z07:00''"

definition timestamp_formats :: "string list" where
  "timestamp_formats =
    [''2006-01-02T15:04:05Z07:00'', ''2006-01-02T15:04:05'', ''2006-01-02 15:04:05'',
     ''2006-01-02'']"

fun first_format :: "('b, 'f) go_env \<Rightarrow> string \<Rightarrow> string list \<Rightarrow> int option" where
  "first_format env s [] = None"
| "first_format env s (format # formats) =
    (case timeParse env format s of
       Some t \<Rightarrow> Some t
     | None \<Rightarrow> first_format env s formats)"

definition coerceTimestamp :: "('b, 'f) go_env \<Rightarrow> 'f jv \<Rightarrow> 'f jv \<times> bool" where
  "coerceTimestamp env val =
    (case val of
       JFloat v \<Rightarrow>
         (JInt (float_to_int64 env v),
          float_neq env v (int64_to_float env (float_to_int64 env v)))
     | JInt v \<Rightarrow> (JInt v, False)
     | JStr v \<Rightarrow>
         (let s = TrimSpace env v in
          case ParseInt env s of
            Some i \<Rightarrow> (JInt i, True)
          | None \<Rightarrow>
              (case timeParse env RFC3339 s of
                 Some t \<Rightarrow> (JStr s, False)
               | None \<Rightarrow>
                   (case first_format env s timestamp_formats of
                      Some t \<Rightarrow> (JInt t, True)
                    | None \<Rightarrow> (val, False))))
     | _ \<Rightarrow> (val, False))"

text \<open>The typed results as the caller stores them in the document.\<close>

definition boolCoercer :: "('b, 'f) go_env \<Rightarrow> 'f jv \<Rightarrow> 'f jv \<times> bool" where
  "boolCoercer env val = (case coerceToBool env val of (b, changed) \<Rightarrow> (JBool b, changed))"

definition intCoercer :: "('b, 'f) go_env \<Rightarrow> 'f jv \<Rightarrow> 'f jv \<times> bool" where
  "intCoercer env val = (case coerceToInt env val of (i, changed) \<Rightarrow> (JInt i, changed))"

definition floatCoercer :: "('b, 'f) go_env \<Rightarrow> 'f jv \<Rightarrow> 'f jv \<times> bool" where
  "floatCoercer env val = (case coerceToFloat env val of (f, changed) \<Rightarrow> (JFloat f, changed))"

text \<open>
  The step every field goes through, on an object and the coercion log:
  \<^verbatim>\<open>if val, ok := m[field]; ok { if coerced, changed := f(val); changed {
  c.logCoercion(path, field, val, coerced); m[field] = coerced } }\<close>
\<close>

definition coerce_field :: "('f jv \<Rightarrow> 'f jv \<times> bool) \<Rightarrow> string \<Rightarrow> string \<Rightarrow>
    'f jobj \<times> 'f Coercion list \<Rightarrow> 'f jobj \<times> 'f Coercion list" where
  "coerce_field f path field st =
    (case st of (m, lg) \<Rightarrow>
      (case map_of m field of
         None \<Rightarrow> (m, lg)
       | Some val \<Rightarrow>
           (case f val of (coerced, changed) \<Rightarrow>
              if changed then (AList.update field coerced m, lg @ [logCoercion path field val coerced])
              else (m, lg))))"

text \<open>
  \<^verbatim>\<open>for k, v := range m { if v == nil { delete(m, k) } }\<close>: every key whose value
  is \<^verbatim>\<open>nil\<close> goes.
\<close>

definition delete_nulls :: "'f jobj \<Rightarrow> 'f jobj" where
  "delete_nulls m = filter (\<lambda>(k, v). map_of m k \<noteq> Some JNull) m"

text \<open>
  A loop \<^verbatim>\<open>for i, s := range entries\<close> whose body works on the entries that are
  objects, in place, and skips the others.
\<close>

fun coerce_entries :: "(nat \<Rightarrow> 'f jobj \<times> 'l \<Rightarrow> 'f jobj \<times> 'l) \<Rightarrow> nat \<Rightarrow> 'f jv list \<Rightarrow> 'l \<Rightarrow>
    'f jv list \<times> 'l" where
  "coerce_entries step i [] lg = ([], lg)"
| "coerce_entries step i (x # xs) lg =
    (case x of
       JObj m \<Rightarrow>
         (case step i (m, lg) of (m', lg') \<Rightarrow>
            (case coerce_entries step (Suc i) xs lg' of (xs', lg'') \<Rightarrow> (JObj m' # xs', lg'')))
     | _ \<Rightarrow>
         (case coerce_entries step (Suc i) xs lg of (xs', lg'') \<Rightarrow> (x # xs', lg'')))"

definition opt_step :: "bool \<Rightarrow> ('s \<Rightarrow> 's) \<Rightarrow> 's \<Rightarrow> 's" where
  "opt_step enabled f st = (if enabled then f st else st)"

definition coerceCommonFields :: "('b, 'f) go_env \<Rightarrow> coerce_Options \<Rightarrow> string \<Rightarrow>
    'f jobj \<times> 'f Coercion list \<Rightarrow> 'f jobj \<times> 'f Coercion list" where
  "coerceCommonFields env opts path st =
    (let st = opt_step (CoerceTimestamps opts)
                (coerce_field (coerceTimestamp env) path ''last_updated'') st;
         st = opt_step (CoerceNumericStrings opts)
                (coerce_field (intCoercer env) path ''ttl'') st;
         st = opt_step (TreatNullAsAbsent opts) (\<lambda>(m, lg). (delete_nulls m, lg)) st
     in st)"

definition stationStatus_step :: "('b, 'f) go_env \<Rightarrow> coerce_Options \<Rightarrow> nat \<Rightarrow>
    'f jobj \<times> 'f Coercion list \<Rightarrow> 'f jobj \<times> 'f Coercion list" where
  "stationStatus_step env opts i st =
    (let path = ''/data/stations/'' @ itoa i;
         st = opt_step (CoerceBooleans opts)
                (fold (coerce_field (boolCoercer env) path)
                   [''is_installed'', ''is_renting'', ''is_returning'', ''is_charging_station'']) st;
         st = opt_step (CoerceNumericStrings opts)
                (fold (coerce_field (intCoercer env) path)
                   [''num_bikes_available'', ''num_bikes_disabled'', ''num_docks_available'',
                    ''num_docks_disabled'', ''num_vehicles_available'',
                    ''num_vehicles_disabled'', ''last_reported'']) st;
         st = opt_step (CoerceTimestamps opts)
                (coerce_field (coerceTimestamp env) path ''last_reported'') st;
         st = opt_step (TreatNullAsAbsent opts) (\<lambda>(m, lg). (delete_nulls m, lg)) st
     in st)"

text \<open>
  The entries of \<^verbatim>\<open>data.stations\<close> are maps, changed in place: the document keeps
  its shape and holds the changed entries.
\<close>

definition coerceStationStatus :: "('b, 'f) go_env \<Rightarrow> coerce_Options \<Rightarrow>
    'f jobj \<times> 'f Coercion list \<Rightarrow> 'f jobj \<times> 'f Coercion list" where
  "coerceStationStatus env opts st =
    (case st of (data, lg) \<Rightarrow>
      (case as_obj (map_of data ''data'') of
         None \<Rightarrow> st
       | Some dataObj \<Rightarrow>
           (case as_arr (map_of dataObj ''stations'') of
              None \<Rightarrow> st
            | Some stations \<Rightarrow>
                (case coerce_entries (stationStatus_step env opts) 0 stations lg of
                   (stations', lg') \<Rightarrow>
                     (AList.update ''data''
                        (JObj (AList.update ''stations'' (JArr stations') dataObj)) data, lg')))))"

definition stationInformation_step :: "('b, 'f) go_env \<Rightarrow> coerce_Options \<Rightarrow> nat \<Rightarrow>
    'f jobj \<times> 'f Coercion list \<Rightarrow> 'f jobj \<times> 'f Coercion list" where
  "stationInformation_step env opts i st =
    (let path = ''/data/stations/'' @ itoa i;
         st = opt_step (CoerceCoordinates opts)
                (fold (coerce_field (floatCoercer env) path) [''lat'', ''lon'']) st;
         st = opt_step (CoerceNumericStrings opts)
                (coerce_field (intCoercer env) path ''capacity'') st;
         st = opt_step (CoerceBooleans opts)
                (fold (coerce_field (boolCoercer env) path)
                   [''is_valet_station'', ''is_virtual_station'', ''is_charging_station'']) st
     in st)"

definition coerceStationInformation :: "('b, 'f) go_env \<Rightarrow> coerce_Options \<Rightarrow>
    'f jobj \<times> 'f Coercion list \<Rightarrow> 'f jobj \<times> 'f Coercion list" where
  "coerceStationInformation env opts st =
    (case st of (data, lg) \<Rightarrow>
      (case as_obj (map_of data ''data'') of
         None \<Rightarrow> st
       | Some dataObj \<Rightarrow>
           (case as_arr (map_of dataObj ''stations'') of
              None \<Rightarrow> st
            | Some stations \<Rightarrow>
                (case coerce_entries (stationInformation_step env opts) 0 stations lg of
                   (stations', lg') \<Rightarrow>
                     (AList.update ''data''
                        (JObj (AList.update ''stations'' (JArr stations') dataObj)) data, lg')))))"

definition vehicleStatus_step :: "('b, 'f) go_env \<Rightarrow> coerce_Options \<Rightarrow> string \<Rightarrow> nat \<Rightarrow>
    'f jobj \<times> 'f Coercion list \<Rightarrow> 'f jobj \<times> 'f Coercion list" where
  "vehicleStatus_step env opts vehiclesKey i st =
    (let path = ''/data/'' @ vehiclesKey @ ''/'' @ itoa i;
         st = opt_step (CoerceCoordinates opts)
                (fold (coerce_field (floatCoercer env) path) [''lat'', ''lon'']) st;
         st = opt_step (CoerceBooleans opts)
                (fold (coerce_field (boolCoercer env) path) [''is_reserved'', ''is_disabled'']) st;
         st = opt_step (CoerceNumericStrings opts)
                (fold (coerce_field (intCoercer env) path)
                   [''current_range_meters'', ''current_fuel_percent'', ''last_reported'']) st;
         st = opt_step (CoerceTimestamps opts)
                (coerce_field (coerceTimestamp env) path ''last_reported'') st
     in st)"

definition coerceVehicleStatus :: "('b, 'f) go_env \<Rightarrow> coerce_Options \<Rightarrow>
    'f jobj \<times> 'f Coercion list \<Rightarrow> 'f jobj \<times> 'f Coercion list" where
  "coerceVehicleStatus env opts st =
    (case st of (data, lg) \<Rightarrow>
      (case as_obj (map_of data ''data'') of
         None \<Rightarrow> st
       | Some dataObj \<Rightarrow>
           (case (case as_arr (map_of dataObj ''vehicles'') of
                    Some v \<Rightarrow> Some (v, ''vehicles'')
                  | None \<Rightarrow>
                      (case as_arr (map_of dataObj ''bikes'') of
                         Some b \<Rightarrow> Some (b, ''bikes'')
                       | None \<Rightarrow> None)) of
              None \<Rightarrow> st
            | Some (vehicles, vehiclesKey) \<Rightarrow>
                (case coerce_entries (vehicleStatus_step env opts vehiclesKey) 0 vehicles lg of
                   (vehicles', lg') \<Rightarrow>
                     (AList.update ''data''
                        (JObj (AList.update vehiclesKey (JArr vehicles') dataObj)) data, lg')))))"

definition vehicleTypes_step :: "('b, 'f) go_env \<Rightarrow> coerce_Options \<Rightarrow> nat \<Rightarrow>
    'f jobj \<times> 'f Coercion list \<Rightarrow> 'f jobj \<times> 'f Coercion list" where
  "vehicleTypes_step env opts i st =
    (let path = ''/data/vehicle_types/'' @ itoa i;
         st = opt_step (CoerceNumericStrings opts)
                (fold (coerce_field (coerceToNumber env) path)
                   [''max_range_meters'', ''wheel_count'', ''max_permitted_speed'',
                    ''rated_power'', ''default_reserve_time'', ''cargo_volume_capacity'',
                    ''cargo_load_capacity'']) st
     in st)"

definition coerceVehicleTypes :: "('b, 'f) go_env \<Rightarrow> coerce_Options \<Rightarrow>
    'f jobj \<times> 'f Coercion list \<Rightarrow> 'f jobj \<times> 'f Coercion list" where
  "coerceVehicleTypes env opts st =
    (case st of (data, lg) \<Rightarrow>
      (case as_obj (map_of data ''data'') of
         None \<Rightarrow> st
       | Some dataObj \<Rightarrow>
           (case as_arr (map_of dataObj ''vehicle_types'') of
              None \<Rightarrow> st
            | Some vehicleTypes \<Rightarrow>
                (case coerce_entries (vehicleTypes_step env opts) 0 vehicleTypes lg of
                   (vehicleTypes', lg') \<Rightarrow>
                     (AList.update ''data''
                        (JObj (AList.update ''vehicle_types'' (JArr vehicleTypes') dataObj)) data,
                      lg')))))"

definition coerceSystemInformation :: "('b, 'f) go_env \<Rightarrow> coerce_Options \<Rightarrow>
    'f jobj \<times> 'f Coercion list \<Rightarrow> 'f jobj \<times> 'f Coercion list" where
  "coerceSystemInformation env opts st =
    (case st of (data, lg) \<Rightarrow>
      (case as_obj (map_of data ''data'') of
         None \<Rightarrow> st
       | Some dataObj \<Rightarrow>
           (case opt_step (CoerceTimestamps opts)
                   (fold (coerce_field (coerceTimestamp env) ''/data'')
                      [''start_date'', ''end_date'']) (dataObj, lg) of
              (dataObj', lg') \<Rightarrow> (AList.update ''data'' (JObj dataObj') data, lg'))))"

definition rule_step :: "('b, 'f) go_env \<Rightarrow> coerce_Options \<Rightarrow> string \<Rightarrow> nat \<Rightarrow>
    'f jobj \<times> 'f Coercion list \<Rightarrow> 'f jobj \<times> 'f Coercion list" where
  "rule_step env opts path j st =
    (let rulePath = path @ ''/rules/'' @ itoa j;
         st = opt_step (CoerceBooleans opts)
                (coerce_field (boolCoercer env) rulePath ''ride_through_allowed'') st;
         st = opt_step (CoerceNumericStrings opts)
                (fold (coerce_field (coerceToNumber env) rulePath)
                   [''maximum_speed_kph'', ''station_parking'']) st
     in st)"

definition feature_step :: "('b, 'f) go_env \<Rightarrow> coerce_Options \<Rightarrow> nat \<Rightarrow>
    'f jobj \<times> 'f Coercion list \<Rightarrow> 'f jobj \<times> 'f Coercion list" where
  "feature_step env opts i st =
    (case st of (feature, lg) \<Rightarrow>
      (case as_obj (map_of feature ''properties'') of
         None \<Rightarrow> st
       | Some props \<Rightarrow>
           (let path = ''/data/geofencing_zones/features/'' @ itoa i @ ''/properties'' in
            case as_arr (map_of props ''rules'') of
              None \<Rightarrow> st
            | Some rules \<Rightarrow>
                (case coerce_entries (rule_step env opts path) 0 rules lg of
                   (rules', lg') \<Rightarrow>
                     (AList.update ''properties''
                        (JObj (AList.update ''rules'' (JArr rules') props)) feature, lg')))))"

definition coerceGeofencingZones :: "('b, 'f) go_env \<Rightarrow> coerce_Options \<Rightarrow>
    'f jobj \<times> 'f Coercion list \<Rightarrow> 'f jobj \<times> 'f Coercion list" where
  "coerceGeofencingZones env opts st =
    (case st of (data, lg) \<Rightarrow>
      (case as_obj (map_of data ''data'') of
         None \<Rightarrow> st
       | Some dataObj \<Rightarrow>
           (case as_obj (map_of dataObj ''geofencing_zones'') of
              None \<Rightarrow> st
            | Some zonesFC \<Rightarrow>
                (case as_arr (map_of zonesFC ''features'') of
                   None \<Rightarrow> st
                 | Some features \<Rightarrow>
                     (case coerce_entries (feature_step env opts) 0 features lg of
                        (features', lg') \<Rightarrow>
                          (AList.update ''data''
                             (JObj (AList.update ''geofencing_zones''
                                (JObj (AList.update ''features'' (JArr features') zonesFC))
                                dataObj)) data, lg'))))))"

record ('b, 'f) coerce_Result =
  res_Data :: 'b
  res_Log :: "'f Coercion list"

text \<open>
  \<^verbatim>\<open>Coerce\<close>: the log starts empty at every call, so the result depends on the options,
  the bytes and the type tag only.
\<close>

definition coerce_document :: "('b, 'f) go_env \<Rightarrow> coerce_Options \<Rightarrow> string \<Rightarrow> 'f jobj \<Rightarrow>
    'f jobj \<times> 'f Coercion list" where
  "coerce_document env opts feedType jsonData =
    (let st = coerceCommonFields env opts [] (jsonData, []) in
     if feedType = ''station_status'' then coerceStationStatus env opts st
     else if feedType = ''station_information'' then coerceStationInformation env opts st
     else if feedType = ''vehicle_status'' \<or> feedType = ''free_bike_status'' then
       coerceVehicleStatus env opts st
     else if feedType = ''vehicle_types'' then coerceVehicleTypes env opts st
     else if feedType = ''system_information'' then coerceSystemInformation env opts st
     else if feedType = ''geofencing_zones'' then coerceGeofencingZones env opts st
     else st)"

definition Coerce :: "('b, 'f) go_env \<Rightarrow> coerce_Options \<Rightarrow> 'b \<Rightarrow> string \<Rightarrow>
    string + ('b, 'f) coerce_Result" where
  "Coerce env opts data feedType =
    (case Unmarshal env data of
       Inl err \<Rightarrow> Inl (''failed to parse JSON: '' @ err)
     | Inr jsonData \<Rightarrow>
         (case coerce_document env opts feedType jsonData of
            (coerced, lg) \<Rightarrow>
              (case Marshal env coerced of
                 Inl err \<Rightarrow> Inl (''failed to serialize coerced data: '' @ err)
               | Inr coercedData \<Rightarrow> Inr \<lparr>res_Data = coercedData, res_Log = lg\<rparr>)))"

section \<open>Orchestrator and cross-reference validator (package validator)\<close>

record 'b FileValidationResult =
  r_File :: string
  r_URL :: string
  r_Required :: bool
  r_Recommended :: bool
  r_Exists :: bool
  r_HasErrors :: bool
  r_ErrorsCount :: int
  r_Errors :: "ValidationError list"
  r_RawData :: "'b option"
  r_CoercedData :: "'b option"
  r_CoercionCount :: int

record VersionInfo =
  Detected :: string
  Validated :: string

record CoercionSummary =
  TotalCoercions :: int
  ByField :: "(string \<times> int) list"

record ValidationSummary =
  ValidatorVersion :: string
  s_Version :: VersionInfo
  s_HasErrors :: bool
  s_ErrorsCount :: int
  VersionUnimplemented :: bool
  s_LenientMode :: bool
  s_CoercionSummary :: "CoercionSummary option"

record 'b ValidationResult =
  vr_Summary :: ValidationSummary
  vr_Files :: "'b FileValidationResult list"

record CoerceOptions =
  vc_CoerceBooleans :: bool
  vc_CoerceTimestamps :: bool
  vc_CoerceNumericStrings :: bool
  vc_CoerceCoordinates :: bool
  vc_TreatNullAsAbsent :: bool

record validator_Options =
  o_Docked :: bool
  o_Freefloating :: bool
  o_Version :: string
  o_LenientMode :: bool
  o_CoerceOptions :: "CoerceOptions option"

definition DefaultCoerceOptions :: CoerceOptions where
  "DefaultCoerceOptions =
    \<lparr>vc_CoerceBooleans = True, vc_CoerceTimestamps = True, vc_CoerceNumericStrings = True,
     vc_CoerceCoordinates = True, vc_TreatNullAsAbsent = True\<rparr>"

text \<open>
  A \<^verbatim>\<open>Validator\<close>: its options and its coercer, \<open>None\<close> for the nil pointer of strict
  mode. The coercer is its option set (its log is reset by every call of \<^verbatim>\<open>Coerce\<close>).
\<close>

record Validator =
  v_options :: validator_Options
  v_coercer :: "coerce_Options option"

definition New :: "validator_Options \<Rightarrow> Validator" where
  "New opts =
    \<lparr>v_options = opts,
     v_coercer =
       (if o_LenientMode opts then
          Some (case o_CoerceOptions opts of
                  None \<Rightarrow> DefaultLenientOptions
                | Some co \<Rightarrow>
                    \<lparr>CoerceBooleans = vc_CoerceBooleans co,
                     CoerceTimestamps = vc_CoerceTimestamps co,
                     CoerceNumericStrings = vc_CoerceNumericStrings co,
                     CoerceCoordinates = vc_CoerceCoordinates co,
                     TreatNullAsAbsent = vc_TreatNullAsAbsent co,
                     AllowExtraFields = False, CoerceEmptyArrays = False\<rparr>)
        else None)\<rparr>"

text \<open>The zero value of \<^verbatim>\<open>FileValidationResult\<close> but for the two fields given.\<close>

definition new_result :: "string \<Rightarrow> bool \<Rightarrow> 'b FileValidationResult" where
  "new_result f required =
    \<lparr>r_File = f, r_URL = [], r_Required = required, r_Recommended = False, r_Exists = False,
     r_HasErrors = False, r_ErrorsCount = 0, r_Errors = [], r_RawData = None,
     r_CoercedData = None, r_CoercionCount = 0\<rparr>"

definition gbfs_feed_issues :: "nat \<Rightarrow> FeedInfo \<Rightarrow> ValidationError list" where
  "gbfs_feed_issues i f =
    (if feed_Name f = [] then
       [verr SeverityError ''feed name is required'' (''/data/feeds/'' @ itoa i @ ''/name'')]
     else []) @
    (if feed_URL f = [] then
       [verr SeverityError ''feed url is required'' (''/data/feeds/'' @ itoa i @ ''/url'')]
     else [])"

definition validateGBFSStructure :: "GBFSFeed \<Rightarrow> ValidationError list" where
  "validateGBFSStructure feed =
    (if gbfs_TTL feed < 0 then [verr SeverityError ''ttl must be non-negative'' ''/ttl''] else []) @
    (if length (gbfs_Feeds feed) = 0 then
       [verr SeverityError ''data.feeds array is required and must not be empty'' ''/data/feeds'']
     else []) @
    concat (map (\<lambda>(i, f). gbfs_feed_issues i f) (enumerate 0 (gbfs_Feeds feed)))"

text \<open>\<^verbatim>\<open>fmt.Sprintf("%v", err)\<close> for an error that may be \<^verbatim>\<open>nil\<close>.\<close>

definition show_error :: "string option \<Rightarrow> string" where
  "show_error e = (case e of None \<Rightarrow> ''<nil>'' | Some msg \<Rightarrow> msg)"

text \<open>
  \<^verbatim>\<open>validateGBFS\<close> returns the result for \<^verbatim>\<open>gbfs.json\<close> (never a nil pointer), the
  decoded feed (\<open>None\<close> for nil) and the error (\<open>None\<close> for nil). A body is present
  whenever \<^verbatim>\<open>Fetch\<close> reports \<^verbatim>\<open>Exists\<close>; decoding a nil body fails as Go's decoder does
  on empty input.
\<close>

definition decode_body :: "('b \<Rightarrow> string + 'a) \<Rightarrow> 'b option \<Rightarrow> string + 'a" where
  "decode_body dec body =
    (case body of None \<Rightarrow> Inl ''unexpected end of JSON input'' | Some b \<Rightarrow> dec b)"

definition validateGBFS :: "('b, 'f) go_env \<Rightarrow> Validator \<Rightarrow> string \<Rightarrow> string list \<Rightarrow>
    ('b FileValidationResult \<times> GBFSFeed option \<times> string option) \<times> string list" where
  "validateGBFS env v gbfsURL fetched0 =
    (let result0 = (new_result ''gbfs.json'' True)\<lparr>r_URL := gbfsURL, r_Recommended := True\<rparr>;
         (fetchResult0, fetched1) = Fetch_logged (http env) gbfsURL fetched0;
         (fetchResult, result, fetched) =
           (if fr_Error fetchResult0 \<noteq> None \<and> \<not> HasSuffix gbfsURL ''gbfs.json'' then
              (let altURL = BuildFeedURL gbfsURL ''gbfs'';
                   (fetchResult1, fetched2) = Fetch_logged (http env) altURL fetched1
               in (fetchResult1,
                   if fr_Error fetchResult1 = None then result0\<lparr>r_URL := altURL\<rparr> else result0,
                   fetched2))
            else (fetchResult0, result0, fetched1))
     in if fr_Error fetchResult \<noteq> None \<or> \<not> fr_Exists fetchResult then
          (((if IsGBFSRequired (o_Version (v_options v)) then
               result\<lparr>r_Exists := False, r_HasErrors := True, r_ErrorsCount := 1,
                 r_Errors := [verr SeverityError ''gbfs.json is required but not found'' []]\<rparr>
             else result\<lparr>r_Exists := False\<rparr>),
            None, Some ''gbfs.json not found''), fetched)
        else
          (let result = result\<lparr>r_Exists := True, r_RawData := fr_Body fetchResult\<rparr> in
           case decode_body (decodeGBFSFeed env) (fr_Body fetchResult) of
             Inl err \<Rightarrow>
               ((result\<lparr>r_HasErrors := True, r_ErrorsCount := 1,
                   r_Errors := [verr SeverityError (''Failed to parse gbfs.json: '' @ err) []]\<rparr>,
                 None, Some err), fetched)
           | Inr feed \<Rightarrow>
               (let schemaErrors = validateGBFSStructure feed in
                ((if length schemaErrors > 0 then
                    result\<lparr>r_HasErrors := True, r_Errors := schemaErrors,
                      r_ErrorsCount := int (length schemaErrors)\<rparr>
                  else result,
                  Some feed, None), fetched))))"

text \<open>\<^verbatim>\<open>buildFeedURLMap\<close>: a later feed of the same name replaces the earlier one.\<close>

definition buildFeedURLMap :: "GBFSFeed \<Rightarrow> (string \<times> string) list" where
  "buildFeedURLMap feed =
    fold (\<lambda>f urls. AList.update (feed_Name f) (feed_URL f) urls) (gbfs_Feeds feed) []"

text \<open>The body of one worker of \<^verbatim>\<open>validateFiles\<close>: the result for one requirement.\<close>

definition validateFile :: "('b, 'f) go_env \<Rightarrow> Validator \<Rightarrow> (string \<times> string) list \<Rightarrow>
    FileRequirement \<Rightarrow> string list \<Rightarrow> 'b FileValidationResult \<times> string list" where
  "validateFile env v feedURLs rq fetched0 =
    (let result = new_result (File rq @ ''.json'') (Required rq) in
     case map_of feedURLs (File rq) of
       None \<Rightarrow>
         ((if Required rq then
             result\<lparr>r_Exists := False, r_HasErrors := True, r_ErrorsCount := 1,
               r_Errors := [verr SeverityError
                 (''Required file '' @ File rq @ ''.json not found in autodiscovery'') []]\<rparr>
           else result\<lparr>r_Exists := False\<rparr>), fetched0)
     | Some url \<Rightarrow>
         (let result = result\<lparr>r_URL := url\<rparr>;
              (fetchResult, fetched) = Fetch_logged (http env) url fetched0
          in if fr_Error fetchResult \<noteq> None \<or> \<not> fr_Exists fetchResult then
               ((if Required rq then
                   result\<lparr>r_Exists := False, r_HasErrors := True, r_ErrorsCount := 1,
                     r_Errors := [verr SeverityError
                       (''Required file '' @ File rq @ ''.json could not be fetched: '' @
                          show_error (fr_Error fetchResult)) []]\<rparr>
                 else result\<lparr>r_Exists := False\<rparr>), fetched)
             else
               (case fr_Body fetchResult of
                  None \<Rightarrow>
                    ((result\<lparr>r_Exists := True, r_HasErrors := True, r_ErrorsCount := 1,
                        r_Errors := [verr SeverityError
                          (''Invalid JSON: unexpected end of JSON input'') []]\<rparr>), fetched)
                | Some body \<Rightarrow>
                    (let result = result\<lparr>r_Exists := True, r_RawData := Some body\<rparr>;
                         (dataToValidate, result) =
                           (case v_coercer v of
                              None \<Rightarrow> (body, result)
                            | Some copts \<Rightarrow>
                                (case Coerce env copts body (File rq) of
                                   Inl err \<Rightarrow> (body, result)
                                 | Inr coerceResult \<Rightarrow>
                                     (res_Data coerceResult,
                                      result\<lparr>r_CoercedData := Some (res_Data coerceResult),
                                        r_CoercionCount :=
                                          int (length (res_Log coerceResult))\<rparr>)));
                         schemaErrors = validateFileStructure env dataToValidate (File rq)
                     in ((if length schemaErrors > 0 then
                            result\<lparr>r_HasErrors := True, r_Errors := schemaErrors,
                              r_ErrorsCount := int (length schemaErrors)\<rparr>
                          else result), fetched)))))"

text \<open>
  \<^verbatim>\<open>validateFiles\<close> starts one goroutine per requirement and waits for all; each stores
  its result under its own key \<^verbatim>\<open>req.File\<close>. Here the workers run one after the other,
  in the order of the requirements.
\<close>

definition validateFiles :: "('b, 'f) go_env \<Rightarrow> Validator \<Rightarrow> (string \<times> string) list \<Rightarrow>
    FileRequirement list \<Rightarrow> string list \<Rightarrow>
    (string \<times> 'b FileValidationResult) list \<times> string list" where
  "validateFiles env v feedURLs requirements fetched0 =
    fold (\<lambda>rq (results, fetched).
            case validateFile env v feedURLs rq fetched of
              (result, fetched') \<Rightarrow> (AList.update (File rq) result results, fetched'))
      requirements ([], fetched0)"

subsection \<open>Cross-reference validation\<close>

text \<open>
  The result set is the Go map \<^verbatim>\<open>map[string]*FileValidationResult\<close>; a change made
  through one of its pointers is an update of the entry under that key. The three
  extracted identifier sets are Go maps too, here association lists.
\<close>

definition usable_raw :: "(string \<times> 'b FileValidationResult) list \<Rightarrow> string \<Rightarrow> 'b option" where
  "usable_raw results name =
    (case map_of results name of
       None \<Rightarrow> None
     | Some result \<Rightarrow> if \<not> r_Exists result then None else r_RawData result)"

definition extractVehicleTypes :: "('b, 'f) go_env \<Rightarrow> (string \<times> 'b FileValidationResult) list \<Rightarrow>
    (string \<times> VehicleType) list" where
  "extractVehicleTypes env results =
    (case usable_raw results ''vehicle_types'' of
       None \<Rightarrow> []
     | Some raw \<Rightarrow>
         (case decodeVehicleTypes env raw of
            Inl err \<Rightarrow> []
          | Inr vts \<Rightarrow> fold (\<lambda>t types. AList.update (VehicleTypeID t) t types) vts []))"

definition extractPricingPlans :: "('b, 'f) go_env \<Rightarrow> (string \<times> 'b FileValidationResult) list \<Rightarrow>
    (string \<times> unit) list" where
  "extractPricingPlans env results =
    (case usable_raw results ''system_pricing_plans'' of
       None \<Rightarrow> []
     | Some raw \<Rightarrow>
         (case decodePricingPlans env raw of
            Inl err \<Rightarrow> []
          | Inr plans \<Rightarrow> fold (\<lambda>p m. AList.update p () m) plans []))"

definition extractStationIDs :: "('b, 'f) go_env \<Rightarrow> (string \<times> 'b FileValidationResult) list \<Rightarrow>
    (string \<times> bool) list" where
  "extractStationIDs env results =
    (case usable_raw results ''station_information'' of
       None \<Rightarrow> []
     | Some raw \<Rightarrow>
         (case decodeStationInformation env raw of
            Inl err \<Rightarrow> []
          | Inr ids \<Rightarrow> fold (\<lambda>s m. AList.update s True m) ids []))"

text \<open>\<^verbatim>\<open>result.Errors = append(result.Errors, e); result.HasErrors = true; result.ErrorsCount++\<close>\<close>

definition add_error :: "ValidationError \<Rightarrow> 'b FileValidationResult \<Rightarrow> 'b FileValidationResult" where
  "add_error e result =
    result\<lparr>r_Errors := r_Errors result @ [e], r_HasErrors := True,
      r_ErrorsCount := r_ErrorsCount result + 1\<rparr>"

text \<open>\<^verbatim>\<open>result.Errors = append(result.Errors, e)\<close> alone, as the warning of the loop does.\<close>

definition add_issue_uncounted :: "ValidationError \<Rightarrow> 'b FileValidationResult \<Rightarrow>
    'b FileValidationResult" where
  "add_issue_uncounted e result = result\<lparr>r_Errors := r_Errors result @ [e]\<rparr>"

definition zero_VehicleType :: VehicleType where
  "zero_VehicleType = \<lparr>VehicleTypeID = [], PropulsionType = [], DefaultPricingPlanID = []\<rparr>"

definition vehicleTypeRef_step :: "('b, 'f) go_env \<Rightarrow> (string \<times> VehicleType) list \<Rightarrow>
    nat \<times> 'f Vehicle \<Rightarrow> 'b FileValidationResult \<Rightarrow> 'b FileValidationResult" where
  "vehicleTypeRef_step env vehicleTypes iv result =
    (case iv of (i, vehicle) \<Rightarrow>
      if veh_VehicleTypeID vehicle \<noteq> [] then
        (let result =
               (if map_of vehicleTypes (veh_VehicleTypeID vehicle) = None then
                  add_error
                    (verr SeverityError
                       (''vehicle_type_id '' @ [CHR 0x27] @ veh_VehicleTypeID vehicle @ [CHR 0x27] @
                          '' not found in vehicle_types.json'')
                       (''/data/vehicles/'' @ itoa i @ ''/vehicle_type_id'')) result
                else result);
             vt = (case map_of vehicleTypes (veh_VehicleTypeID vehicle) of
                     Some t \<Rightarrow> t
                   | None \<Rightarrow> zero_VehicleType)
         in if isMotorized (PropulsionType vt) \<and>
                 \<not> float_nonzero env (veh_CurrentRangeMeters vehicle) then
              add_issue_uncounted
                (verr SeverityWarning ''current_range_meters is recommended for motorized vehicles''
                   (''/data/vehicles/'' @ itoa i)) result
            else result)
      else result)"

definition validateVehicleTypeReferences :: "('b, 'f) go_env \<Rightarrow>
    (string \<times> 'b FileValidationResult) list \<Rightarrow> (string \<times> VehicleType) list \<Rightarrow> string \<Rightarrow>
    (string \<times> 'b FileValidationResult) list" where
  "validateVehicleTypeReferences env results vehicleTypes ver =
    (let fileName = GetVehicleStatusFileName ver in
     case map_of results fileName of
       None \<Rightarrow> results
     | Some result \<Rightarrow>
         (case usable_raw results fileName of
            None \<Rightarrow> results
          | Some raw \<Rightarrow>
              if length vehicleTypes = 0 then results
              else (case decodeVehicleStatus env raw of
                  Inl err \<Rightarrow> results
                | Inr vs \<Rightarrow>
                    AList.update fileName
                      (fold (vehicleTypeRef_step env vehicleTypes) (enumerate 0 (GetVehicles vs))
                         result)
                      results)))"

definition pricingPlanRef_step :: "(string \<times> unit) list \<Rightarrow> nat \<times> VehicleType \<Rightarrow>
    'b FileValidationResult \<Rightarrow> 'b FileValidationResult" where
  "pricingPlanRef_step pricingPlans it vtResult =
    (case it of (i, t) \<Rightarrow>
      if DefaultPricingPlanID t \<noteq> [] \<and> map_of pricingPlans (DefaultPricingPlanID t) = None then
        add_error
          (verr SeverityError
             (''default_pricing_plan_id '' @ [CHR 0x27] @ DefaultPricingPlanID t @ [CHR 0x27] @
                '' not found in system_pricing_plans.json'')
             (''/data/vehicle_types/'' @ itoa i @ ''/default_pricing_plan_id'')) vtResult
      else vtResult)"

definition validatePricingPlanReferences :: "('b, 'f) go_env \<Rightarrow>
    (string \<times> 'b FileValidationResult) list \<Rightarrow> (string \<times> unit) list \<Rightarrow>
    (string \<times> 'b FileValidationResult) list" where
  "validatePricingPlanReferences env results pricingPlans =
    (if length pricingPlans = 0 then results
     else (case map_of results ''vehicle_types'' of
         None \<Rightarrow> results
       | Some vtResult \<Rightarrow>
           (case usable_raw results ''vehicle_types'' of
              None \<Rightarrow> results
            | Some raw \<Rightarrow>
                (case decodeVehicleTypes env raw of
                   Inl err \<Rightarrow> results
                 | Inr vts \<Rightarrow>
                     AList.update ''vehicle_types''
                       (fold (pricingPlanRef_step pricingPlans) (enumerate 0 vts) vtResult)
                       results))))"

definition stationIDRef_step :: "(string \<times> bool) list \<Rightarrow> nat \<times> string \<Rightarrow>
    'b FileValidationResult \<Rightarrow> 'b FileValidationResult" where
  "stationIDRef_step stationIDs isid ssResult =
    (case isid of (i, sid) \<Rightarrow>
      if map_of stationIDs sid \<noteq> Some True then
        add_error
          (verr SeverityError
             (''station_id '' @ [CHR 0x27] @ sid @ [CHR 0x27] @
                '' not found in station_information.json'')
             (''/data/stations/'' @ itoa i @ ''/station_id'')) ssResult
      else ssResult)"

definition validateStationIDReferences :: "('b, 'f) go_env \<Rightarrow>
    (string \<times> 'b FileValidationResult) list \<Rightarrow> (string \<times> bool) list \<Rightarrow>
    (string \<times> 'b FileValidationResult) list" where
  "validateStationIDReferences env results stationIDs =
    (if length stationIDs = 0 then results
     else (case map_of results ''station_status'' of
         None \<Rightarrow> results
       | Some ssResult \<Rightarrow>
           (case usable_raw results ''station_status'' of
              None \<Rightarrow> results
            | Some raw \<Rightarrow>
                (case decodeStationStatus env raw of
                   Inl err \<Rightarrow> results
                 | Inr sids \<Rightarrow>
                     AList.update ''station_status''
                       (fold (stationIDRef_step stationIDs) (enumerate 0 sids) ssResult)
                       results))))"

text \<open>
  Conditional requirement: the referenced document becomes required, with an error, when
  it is not in the result set or does not exist; a result is made for it when there is
  none.
\<close>

definition escalate :: "string \<Rightarrow> string \<Rightarrow> (string \<times> 'b FileValidationResult) list \<Rightarrow>
    (string \<times> 'b FileValidationResult) list" where
  "escalate name msg results =
    (let existing = map_of results name in
     if (case existing of None \<Rightarrow> True | Some r \<Rightarrow> \<not> r_Exists r) then
       (let r = (case existing of
                   None \<Rightarrow> new_result (name @ ''.json'') True
                 | Some r \<Rightarrow> r)
        in AList.update name
             (add_error (verr SeverityError msg []) (r\<lparr>r_Required := True\<rparr>)) results)
     else results)"

definition checkConditionalVehicleTypes :: "('b, 'f) go_env \<Rightarrow>
    (string \<times> 'b FileValidationResult) list \<Rightarrow> string \<Rightarrow>
    (string \<times> 'b FileValidationResult) list" where
  "checkConditionalVehicleTypes env results ver =
    (let fileName = GetVehicleStatusFileName ver in
     case usable_raw results fileName of
       None \<Rightarrow> results
     | Some raw \<Rightarrow>
         (case decodeVehicleStatus env raw of
            Inl err \<Rightarrow> results
          | Inr vs \<Rightarrow>
              if list_ex (\<lambda>vehicle. veh_VehicleTypeID vehicle \<noteq> []) (GetVehicles vs) then
                escalate ''vehicle_types''
                  (''vehicle_types.json is required when vehicle_type_id is used in '' @
                     fileName @ ''.json'') results
              else results))"

definition checkConditionalPricingPlans :: "('b, 'f) go_env \<Rightarrow>
    (string \<times> 'b FileValidationResult) list \<Rightarrow> string \<Rightarrow>
    (string \<times> 'b FileValidationResult) list" where
  "checkConditionalPricingPlans env results ver =
    (let fileName = GetVehicleStatusFileName ver in
     case usable_raw results fileName of
       None \<Rightarrow> results
     | Some raw \<Rightarrow>
         (case decodeVehicleStatus env raw of
            Inl err \<Rightarrow> results
          | Inr vs \<Rightarrow>
              if list_ex (\<lambda>vehicle. veh_PricingPlanID vehicle \<noteq> []) (GetVehicles vs) then
                escalate ''system_pricing_plans''
                  (''system_pricing_plans.json is required when pricing_plan_id is used in '' @
                     fileName @ ''.json'') results
              else results))"

definition crossValidate :: "('b, 'f) go_env \<Rightarrow> (string \<times> 'b FileValidationResult) list \<Rightarrow>
    string \<Rightarrow> (string \<times> 'b FileValidationResult) list" where
  "crossValidate env results0 ver =
    (let vehicleTypes = extractVehicleTypes env results0;
         pricingPlans = extractPricingPlans env results0;
         stationIDs = extractStationIDs env results0;
         results1 = validateVehicleTypeReferences env results0 vehicleTypes ver;
         results2 = validatePricingPlanReferences env results1 pricingPlans;
         results3 = validateStationIDReferences env results2 stationIDs;
         results4 = checkConditionalVehicleTypes env results3 ver
     in checkConditionalPricingPlans env results4 ver)"

subsection \<open>The top-level operation\<close>

definition zero_Summary :: ValidationSummary where
  "zero_Summary =
    \<lparr>ValidatorVersion = [], s_Version = \<lparr>Detected = [], Validated = []\<rparr>, s_HasErrors = False,
     s_ErrorsCount = 0, VersionUnimplemented = False, s_LenientMode = False,
     s_CoercionSummary = None\<rparr>"

text \<open>
  The loop \<^verbatim>\<open>for _, fr := range fileResults\<close> of \<^verbatim>\<open>Validate\<close>, on the report and the
  running total of coercions. Go visits a map in no fixed order; here the results are
  visited in the order in which their keys came into the result set.
\<close>

definition aggregate_step :: "'b FileValidationResult \<Rightarrow> 'b ValidationResult \<times> int \<Rightarrow>
    'b ValidationResult \<times> int" where
  "aggregate_step fr st =
    (case st of (result, totalCoercions) \<Rightarrow>
      (let summary = vr_Summary result;
           summary = (if r_HasErrors fr then summary\<lparr>s_HasErrors := True\<rparr> else summary);
           summary = summary\<lparr>s_ErrorsCount := s_ErrorsCount summary + r_ErrorsCount fr\<rparr>
       in (result\<lparr>vr_Files := vr_Files result @ [fr], vr_Summary := summary\<rparr>,
           if r_CoercionCount fr > 0 then totalCoercions + r_CoercionCount fr
           else totalCoercions)))"

text \<open>
  \<^verbatim>\<open>Validate\<close> returns a pointer to the report (\<open>None\<close> would be nil) and an error
  (\<open>None\<close> is nil), and leaves the list of the URLs fetched.
\<close>

definition Validate :: "('b, 'f) go_env \<Rightarrow> Validator \<Rightarrow> string \<Rightarrow> string list \<Rightarrow>
    ('b ValidationResult option \<times> string option) \<times> string list" where
  "Validate env v gbfsURL fetched0 =
    (let result0 =
           \<lparr>vr_Summary = zero_Summary\<lparr>ValidatorVersion := ''1.0.0'',
              s_LenientMode := o_LenientMode (v_options v)\<rparr>,
            vr_Files = []\<rparr>
     in case validateGBFS env v gbfsURL fetched0 of
       ((gbfsResult, gbfsFeed, err), fetched1) \<Rightarrow>
         (case (if err \<noteq> None then None else gbfsFeed) of
            None \<Rightarrow>
              ((Some (result0\<lparr>vr_Files := vr_Files result0 @ [gbfsResult],
                   vr_Summary := (vr_Summary result0)\<lparr>VersionUnimplemented := True\<rparr>\<rparr>),
                None), fetched1)
          | Some feed \<Rightarrow>
              (let result1 = result0\<lparr>vr_Files := vr_Files result0 @ [gbfsResult]\<rparr>;
                   detectedVersion = (if gbfs_Version feed = [] then ''1.0'' else gbfs_Version feed);
                   validatedVersion =
                     (if o_Version (v_options v) = [] then detectedVersion
                      else o_Version (v_options v));
                   result2 = result1\<lparr>vr_Summary := (vr_Summary result1)
                     \<lparr>s_Version := \<lparr>Detected = detectedVersion, Validated = validatedVersion\<rparr>\<rparr>\<rparr>;
                   feedURLs = buildFeedURLMap feed;
                   requirements = GetFileRequirements validatedVersion
                     \<lparr>Docked = o_Docked (v_options v),
                      Freefloating = o_Freefloating (v_options v)\<rparr>
               in case validateFiles env v feedURLs requirements fetched1 of
                 (fileResults0, fetched2) \<Rightarrow>
                   (let fileResults = crossValidate env fileResults0 validatedVersion;
                        (result3, totalCoercions) =
                          fold aggregate_step (map snd fileResults) (result2, 0);
                        result4 =
                          (if r_HasErrors gbfsResult then
                             result3\<lparr>vr_Summary := (vr_Summary result3)\<lparr>s_HasErrors := True\<rparr>\<rparr>
                           else result3);
                        result5 =
                          (if o_LenientMode (v_options v) \<and> totalCoercions > 0 then
                             result4\<lparr>vr_Summary := (vr_Summary result4)
                               \<lparr>s_CoercionSummary :=
                                  Some \<lparr>TotalCoercions = totalCoercions, ByField = []\<rparr>\<rparr>\<rparr>
                           else result4)
                    in ((Some result5, None), fetched2)))))"

section \<open>Test environments and predicates of the claims\<close>

definition missing_required :: "string \<Rightarrow> 'b FileValidationResult" where
  "missing_required name =
     (new_result (name @ ''.json'') True)\<lparr>r_HasErrors := True, r_ErrorsCount := 1,
        r_Errors := [verr SeverityError
          (''Required file '' @ name @ ''.json not found in autodiscovery'') []]\<rparr>"

definition stub_env :: "(string, int) go_env" where
  "stub_env =
    \<lparr>http = (\<lambda>url. TransportError ''connection refused''),
     Unmarshal = (\<lambda>b. Inl ''unexpected end of JSON input''),
     Marshal = (\<lambda>m. Inl ''unsupported value''),
     decodeGBFSFeed = (\<lambda>b. Inl ''unexpected end of JSON input''),
     decodeVehicleTypes = (\<lambda>b. Inl ''unexpected end of JSON input''),
     decodeVehicleStatus = (\<lambda>b. Inl ''unexpected end of JSON input''),
     decodePricingPlans = (\<lambda>b. Inl ''unexpected end of JSON input''),
     decodeStationInformation = (\<lambda>b. Inl ''unexpected end of JSON input''),
     decodeStationStatus = (\<lambda>b. Inl ''unexpected end of JSON input''),
     ParseInt = (\<lambda>s. None),
     ParseFloat = (\<lambda>s. None),
     TrimSpace = (\<lambda>s. s),
     ToLower = (\<lambda>s. s),
     timeParse = (\<lambda>layout s. None),
     float_to_int64 = (\<lambda>f. f),
     int64_to_float = (\<lambda>i. i),
     float_nonzero = (\<lambda>f. f \<noteq> 0),
     float_neq = (\<lambda>f g. f \<noteq> g)\<rparr>"

definition strict_options :: validator_Options where
  "strict_options =
    \<lparr>o_Docked = False, o_Freefloating = False, o_Version = [], o_LenientMode = False,
     o_CoerceOptions = None\<rparr>"

definition manifest_si_only :: GBFSFeed where
  "manifest_si_only =
    \<lparr>gbfs_TTL = 0, gbfs_Version = ''3.0'',
     gbfs_Feeds = [\<lparr>feed_Name = ''system_information'',
                    feed_URL = ''http://feed.test/system_information.json''\<rparr>]\<rparr>"

definition env_si_only :: "(string, int) go_env" where
  "env_si_only =
    stub_env\<lparr>http := (\<lambda>url. if url = ''http://feed.test/gbfs.json''
                          then Response 200 (Inr ''manifest'') else Response 404 (Inr [])),
      decodeGBFSFeed := (\<lambda>b. if b = ''manifest'' then Inr manifest_si_only
                          else Inl ''unexpected end of JSON input'')\<rparr>"

definition is_error_issue :: "ValidationError \<Rightarrow> bool" where
  "is_error_issue e = (Severity e = SeverityError)"

definition effective_version :: "Validator \<Rightarrow> GBFSFeed \<Rightarrow> string" where
  "effective_version v feed =
    (if o_Version (v_options v) = [] then
       (if gbfs_Version feed = [] then ''1.0'' else gbfs_Version feed)
     else o_Version (v_options v))"

definition document_fetches :: "Validator \<Rightarrow> GBFSFeed \<Rightarrow> string list" where
  "document_fetches v feed =
    List.map_filter (\<lambda>rq. map_of (buildFeedURLMap feed) (File rq))
      (GetFileRequirements (effective_version v feed)
         \<lparr>Docked = o_Docked (v_options v), Freefloating = o_Freefloating (v_options v)\<rparr>)"

definition env_fallback :: "(string, int) go_env" where
  "env_fallback =
    stub_env\<lparr>http := (\<lambda>url. if url = ''http://feed.test/v3'' then TransportError ''EOF''
                          else if url = ''http://feed.test/v3/gbfs.json''
                          then Response 200 (Inr ''manifest'') else Response 404 (Inr [])),
      decodeGBFSFeed := (\<lambda>b. if b = ''manifest'' then Inr manifest_si_only
                          else Inl ''unexpected end of JSON input'')\<rparr>"

definition manifest_negative_ttl :: GBFSFeed where
  "manifest_negative_ttl =
    \<lparr>gbfs_TTL = - 1, gbfs_Version = ''3.0'',
     gbfs_Feeds = [\<lparr>feed_Name = ''system_information'',
                    feed_URL = ''http://feed.test/system_information.json''\<rparr>]\<rparr>"

definition system_information_doc :: "int jobj" where
  "system_information_doc =
    [(''last_updated'', JFloat 1700000000), (''ttl'', JFloat 0), (''version'', JStr ''3.0''),
     (''data'', JObj [(''system_id'', JStr ''test''), (''timezone'', JStr ''UTC''),
                      (''name'', JStr ''Test'')])]"

definition env_negative_ttl :: "(string, int) go_env" where
  "env_negative_ttl =
    stub_env\<lparr>http := (\<lambda>url. if url = ''http://feed.test/gbfs.json''
                          then Response 200 (Inr ''manifest'')
                          else if url = ''http://feed.test/system_information.json''
                          then Response 200 (Inr ''system_information'')
                          else Response 404 (Inr [])),
      decodeGBFSFeed := (\<lambda>b. if b = ''manifest'' then Inr manifest_negative_ttl
                          else Inl ''unexpected end of JSON input''),
      Unmarshal := (\<lambda>b. if b = ''system_information'' then Inr system_information_doc
                     else Inl ''unexpected end of JSON input'')\<rparr>"

definition recorded_issues :: "'b ValidationResult \<Rightarrow> int" where
  "recorded_issues r = sum_list (map (\<lambda>fr. int (length (r_Errors fr))) (vr_Files r))"








subsection \<open>Reading back what the normalizer wrote\<close>

text \<open>
  \<^verbatim>\<open>json.Marshal\<close> writes an \<^verbatim>\<open>int64\<close> as a number, and \<^verbatim>\<open>json.Unmarshal\<close> reads every
  number as a \<^verbatim>\<open>float64\<close>: a document read back after a pass of the normalizer is the
  document the pass wrote with each \<^verbatim>\<open>int64\<close> converted, and nothing else changed.
\<close>

primrec reparse :: "(int \<Rightarrow> 'f) \<Rightarrow> 'f jv \<Rightarrow> 'f jv" where
  "reparse c JNull = JNull"
| "reparse c (JBool b) = JBool b"
| "reparse c (JFloat f) = JFloat f"
| "reparse c (JInt i) = JFloat (c i)"
| "reparse c (JStr s) = JStr s"
| "reparse c (JArr xs) = JArr (map (reparse c) xs)"
| "reparse c (JObj m) = JObj (map (map_prod id (reparse c)) m)"

definition reparse_obj :: "(int \<Rightarrow> 'f) \<Rightarrow> 'f jobj \<Rightarrow> 'f jobj" where
  "reparse_obj c m = map (map_prod id (reparse c)) m"




text \<open>The fields one loop body coerces, in order, each with its conversion.\<close>

definition run_fields :: "string \<Rightarrow> (('f jv \<Rightarrow> 'f jv \<times> bool) \<times> string) list \<Rightarrow>
    'f jobj \<times> 'f Coercion list \<Rightarrow> 'f jobj \<times> 'f Coercion list" where
  "run_fields path ops st = fold (\<lambda>(g, f). coerce_field g path f) ops st"

text \<open>The value of a field of entry \<open>i\<close> of \<^verbatim>\<open>data.stations\<close>.\<close>

definition station_field :: "'f jobj \<Rightarrow> nat \<Rightarrow> string \<Rightarrow> 'f jv option" where
  "station_field doc i field =
    (case as_obj (map_of doc ''data'') of
       None \<Rightarrow> None
     | Some dataObj \<Rightarrow>
         (case as_arr (map_of dataObj ''stations'') of
            None \<Rightarrow> None
          | Some stations \<Rightarrow>
              if i < length stations then
                (case stations ! i of JObj station \<Rightarrow> map_of station field | _ \<Rightarrow> None)
              else None))"

definition station_path :: "nat \<Rightarrow> string" where
  "station_path i = ''/data/stations/'' @ itoa i"

definition type_issue :: "nat \<Rightarrow> string \<Rightarrow> ValidationError" where
  "type_issue i field =
    verr SeverityError (field @ '' must be a boolean'') (station_path i @ ''/'' @ field)"

subsection \<open>An environment on whole numbers\<close>

text \<open>
  A concrete standard library for the runs below. A \<^verbatim>\<open>float64\<close> is given by its value,
  which is a whole number here; \<^verbatim>\<open>float64(i)\<close> rounds to 53 significant bits, ties to
  even, and \<^verbatim>\<open>int64(v)\<close> is the value itself when it fits 64 bits (Go leaves the other
  case to the implementation; amd64 gives the least \<^verbatim>\<open>int64\<close>). A byte buffer is given
  by the JSON text it holds, numbers written as the whole numbers they spell; an encoded
  \<^verbatim>\<open>float64\<close> of magnitude up to \<open>2 ^ 53\<close> spells its own value. \<^verbatim>\<open>ParseInt\<close> reads an
  optional sign and decimal digits within 64 bits; \<^verbatim>\<open>ParseFloat\<close> is given on such
  literals only, \<^verbatim>\<open>TrimSpace\<close> and \<^verbatim>\<open>ToLower\<close> on ASCII, and no date is parsed: the runs
  below stay within these bounds.
\<close>

fun bitlen :: "nat \<Rightarrow> nat" where
  "bitlen n = (if n = 0 then 0 else Suc (bitlen (n div 2)))"

declare bitlen.simps [simp del]

definition round_float64 :: "int \<Rightarrow> int" where
  "round_float64 i =
    (let a = nat \<bar>i\<bar>;
         e = bitlen a - 53;
         q = a div 2 ^ e;
         r = a mod 2 ^ e;
         q' = (if 0 < e \<and> (2 ^ (e - 1) < r \<or> (r = 2 ^ (e - 1) \<and> odd q)) then q + 1 else q)
     in sgn i * int (q' * 2 ^ e))"

definition to_int64 :: "int \<Rightarrow> int" where
  "to_int64 v = (if - (2 ^ 63) \<le> v \<and> v < 2 ^ 63 then v else - (2 ^ 63))"

definition digit_of :: "char \<Rightarrow> nat option" where
  "digit_of c = (let n = (of_char c :: nat) in if 48 \<le> n \<and> n \<le> 57 then Some (n - 48) else None)"

fun parse_digits :: "string \<Rightarrow> nat \<Rightarrow> nat option" where
  "parse_digits [] acc = Some acc"
| "parse_digits (c # cs) acc =
    (case digit_of c of None \<Rightarrow> None | Some d \<Rightarrow> parse_digits cs (10 * acc + d))"

definition parse_integer :: "string \<Rightarrow> int option" where
  "parse_integer s =
    (case (case s of
             c # r \<Rightarrow> if c = CHR ''-'' then (True, r) else if c = CHR ''+'' then (False, r)
                       else (False, s)
           | [] \<Rightarrow> (False, s)) of
       (neg, ds) \<Rightarrow>
         if ds = [] then None
         else (case parse_digits ds 0 of
             None \<Rightarrow> None
           | Some n \<Rightarrow> Some (if neg then - int n else int n)))"

definition parse_int64 :: "string \<Rightarrow> int option" where
  "parse_int64 s =
    (case parse_integer s of
       None \<Rightarrow> None
     | Some i \<Rightarrow> if - (2 ^ 63) \<le> i \<and> i < 2 ^ 63 then Some i else None)"

definition ascii_space :: "char \<Rightarrow> bool" where
  "ascii_space c = (c \<in> set [CHR '' '', CHR 0x09, CHR 0x0A, CHR 0x0B, CHR 0x0C, CHR 0x0D])"

definition trim_space :: "string \<Rightarrow> string" where
  "trim_space s = rev (dropWhile ascii_space (rev (dropWhile ascii_space s)))"

definition to_lower :: "string \<Rightarrow> string" where
  "to_lower s =
    map (\<lambda>c. let n = (of_char c :: nat) in if 65 \<le> n \<and> n \<le> 90 then char_of (n + 32) else c) s"

primrec written :: "int jv \<Rightarrow> int jv" where
  "written JNull = JNull"
| "written (JBool b) = JBool b"
| "written (JFloat f) = JInt f"
| "written (JInt i) = JInt i"
| "written (JStr s) = JStr s"
| "written (JArr xs) = JArr (map written xs)"
| "written (JObj m) = JObj (map (map_prod id written) m)"

primrec read_back :: "int jv \<Rightarrow> int jv" where
  "read_back JNull = JNull"
| "read_back (JBool b) = JBool b"
| "read_back (JFloat f) = JFloat f"
| "read_back (JInt i) = JFloat (round_float64 i)"
| "read_back (JStr s) = JStr s"
| "read_back (JArr xs) = JArr (map read_back xs)"
| "read_back (JObj m) = JObj (map (map_prod id read_back) m)"

definition int_env :: "(int jobj, int) go_env" where
  "int_env =
    \<lparr>http = (\<lambda>url. TransportError ''connection refused''),
     Unmarshal = (\<lambda>b. Inr (map (map_prod id read_back) b)),
     Marshal = (\<lambda>m. Inr (map (map_prod id written) m)),
     decodeGBFSFeed = (\<lambda>b. Inl ''unexpected end of JSON input''),
     decodeVehicleTypes = (\<lambda>b. Inl ''unexpected end of JSON input''),
     decodeVehicleStatus = (\<lambda>b. Inl ''unexpected end of JSON input''),
     decodePricingPlans = (\<lambda>b. Inl ''unexpected end of JSON input''),
     decodeStationInformation = (\<lambda>b. Inl ''unexpected end of JSON input''),
     decodeStationStatus = (\<lambda>b. Inl ''unexpected end of JSON input''),
     ParseInt = parse_int64,
     ParseFloat = (\<lambda>s. map_option round_float64 (parse_integer s)),
     TrimSpace = trim_space,
     ToLower = to_lower,
     timeParse = (\<lambda>layout s. None),
     float_to_int64 = to_int64,
     int64_to_float = round_float64,
     float_nonzero = (\<lambda>f. f \<noteq> 0),
     float_neq = (\<lambda>f g. f \<noteq> g)\<rparr>"

subsection \<open>Properties of the steps of the normalizer\<close>

definition log_appending :: "('m \<times> 'l list \<Rightarrow> 'm \<times> 'l list) \<Rightarrow> bool" where
  "log_appending step =
    (\<forall>m lg. step (m, lg) = (fst (step (m, [])), lg @ snd (step (m, []))))"

text \<open>What a loop over entries does to the entries and to the log.\<close>

definition entry_result :: "(nat \<Rightarrow> 'f jobj \<times> 'l list \<Rightarrow> 'f jobj \<times> 'l list) \<Rightarrow> nat \<times> 'f jv \<Rightarrow> 'f jv" where
  "entry_result step jx = (case jx of (j, x) \<Rightarrow>
     (case x of JObj m \<Rightarrow> JObj (fst (step j (m, []))) | _ \<Rightarrow> x))"

definition entry_log :: "(nat \<Rightarrow> 'f jobj \<times> 'l list \<Rightarrow> 'f jobj \<times> 'l list) \<Rightarrow> nat \<times> 'f jv \<Rightarrow> 'l list" where
  "entry_log step jx = (case jx of (j, x) \<Rightarrow>
     (case x of JObj m \<Rightarrow> snd (step j (m, [])) | _ \<Rightarrow> []))"

definition logs_at :: "string \<Rightarrow> ('f jobj \<times> 'f Coercion list \<Rightarrow> 'f jobj \<times> 'f Coercion list) \<Rightarrow> bool" where
  "logs_at p step =
    (\<forall>m lg. \<exists>l. snd (step (m, lg)) = lg @ l \<and> list_all (\<lambda>c. c_Path c = p) l)"

definition keeps :: "string \<Rightarrow> 'f jv \<Rightarrow>
    ('f jobj \<times> 'f Coercion list \<Rightarrow> 'f jobj \<times> 'f Coercion list) \<Rightarrow> bool" where
  "keeps f v step =
    (\<forall>m lg. map_of m f = Some v \<longrightarrow>
       map_of (fst (step (m, lg))) f = Some v \<and>
       (\<exists>l. snd (step (m, lg)) = lg @ l \<and> list_all (\<lambda>c. c_Field c \<noteq> f) l))"

definition station_status_doc :: "int jobj" where
  "station_status_doc =
    [(''data'', JObj [(''stations'', JArr
        [JObj [(''station_id'', JStr ''s1''), (''is_installed'', JStr ''1''),
               (''is_renting'', JBool True)]])])]"

definition vehicle_status_nulls :: "int jobj" where
  "vehicle_status_nulls =
    [(''extra'', JNull),
     (''data'', JObj [(''vehicles'', JArr
        [JObj [(''vehicle_id'', JStr ''v1''), (''current_range_meters'', JNull)]])])]"

definition station_status_nulls :: "int jobj" where
  "station_status_nulls =
    [(''extra'', JNull),
     (''data'', JObj [(''stations'', JArr
        [JObj [(''station_id'', JStr ''s1''), (''num_bikes_available'', JNull)]])])]"

subsection \<open>A second pass of the normalizer\<close>






















section \<open>Facts about the version policy\<close>

lemmas files_defs = files_1_0_def files_1_1_def files_2_1_def files_3_0_def files_3_1_RC2_def

lemma Configs_None_iff: "Configs v = None \<longleftrightarrow> v \<notin> set SupportedVersions"
  by (simp add: Configs_def SupportedVersions_def)

subsection \<open>Claims about the version policy\<close>

text \<open>
  Claim C5, as amended. For a version string outside the eight supported ones the lookup
  still returns a list: the list of the table entry whose key is \<^verbatim>\<open>"3.0"\<close>
  (line \<^verbatim>\<open>cfg = Configs["3.0"]\<close> of \<^verbatim>\<open>GetFileRequirements\<close>).
\<close>

theorem fallback_is_3_0:
  assumes "v \<notin> set SupportedVersions"
  shows "\<exists>cfg. Configs ''3.0'' = Some cfg \<and> Version cfg = ''3.0'' \<and>
           GetFileRequirements v opts = Files cfg opts"
  using assms by (simp add: GetFileRequirements_def Configs_def SupportedVersions_def)

theorem fallback_is_3_0_witness:
  "''4.0'' \<notin> set SupportedVersions \<and>
   (\<exists>cfg. Configs ''3.0'' = Some cfg \<and> Version cfg = ''3.0'' \<and>
      GetFileRequirements ''4.0'' \<lparr>Docked = True, Freefloating = False\<rparr> =
        Files cfg \<lparr>Docked = True, Freefloating = False\<rparr>)"
proof -
  have h: "''4.0'' \<notin> set SupportedVersions" by (simp add: SupportedVersions_def)
  from fallback_is_3_0 [OF h] h show ?thesis by blast
qed

text \<open>
  Claim C5 as stated fails: the unsupported version \<^verbatim>\<open>"4.0"\<close> does not get the list of
  the newest entry, 3.1-RC2 (that list has \<^verbatim>\<open>vehicle_availability\<close>, the fallback list
  has not).
\<close>

theorem fallback_not_newest_counterexample:
  "''4.0'' \<notin> set SupportedVersions \<and>
   Configs ''3.1-RC2'' =
     Some \<lparr>Version = ''3.1-RC2'', GBFSRequired = True, Files = files_3_1_RC2\<rparr> \<and>
   GetFileRequirements ''4.0'' \<lparr>Docked = False, Freefloating = False\<rparr> \<noteq>
     files_3_1_RC2 \<lparr>Docked = False, Freefloating = False\<rparr>"
  by (simp add: GetFileRequirements_def Configs_def SupportedVersions_def files_defs)

text \<open>
  Claim C9. For each of the eight supported versions and all flags, the lookup returns
  the list of that version's own table entry: one requirement per entry, so the file
  names are those of the table whatever the flags, no name twice, and 9, 10, 10, 12, 12,
  12, 11 and 12 of them. With \<^verbatim>\<open>Docked\<close> and \<^verbatim>\<open>Freefloating\<close> both false, none of
  \<^verbatim>\<open>station_information\<close>, \<^verbatim>\<open>station_status\<close>, \<^verbatim>\<open>free_bike_status\<close> and
  \<^verbatim>\<open>vehicle_status\<close> is required.
\<close>

theorem requirements_per_table_entry:
  assumes "v \<in> set SupportedVersions"
  shows "\<exists>cfg. Configs v = Some cfg \<and> Version cfg = v \<and>
           GetFileRequirements v opts = Files cfg opts \<and>
           map File (GetFileRequirements v opts) =
             map File (Files cfg \<lparr>Docked = False, Freefloating = False\<rparr>) \<and>
           distinct (map File (GetFileRequirements v opts)) \<and>
           length (GetFileRequirements v opts) =
             (if v = ''1.0'' then 9 else if v = ''1.1'' \<or> v = ''2.0'' then 10
              else if v = ''3.0'' then 11 else 12) \<and>
           (\<not> Docked opts \<and> \<not> Freefloating opts \<longrightarrow>
              (\<forall>r \<in> set (GetFileRequirements v opts).
                 station_or_vehicle_based (File r) \<longrightarrow> \<not> Required r))"
proof -
  note unfold = GetFileRequirements_def Configs_def files_defs req_def
    station_or_vehicle_based_def
  from assms consider "v = ''1.0''" | "v = ''1.1''" | "v = ''2.0''" | "v = ''2.1''"
    | "v = ''2.2''" | "v = ''2.3''" | "v = ''3.0''" | "v = ''3.1-RC2''"
    by (auto simp: SupportedVersions_def)
  then show ?thesis
  proof cases
    case 1 then show ?thesis by (simp add: unfold)
  next
    case 2 then show ?thesis by (simp add: unfold)
  next
    case 3 then show ?thesis by (simp add: unfold)
  next
    case 4 then show ?thesis by (simp add: unfold)
  next
    case 5 then show ?thesis by (simp add: unfold)
  next
    case 6 then show ?thesis by (simp add: unfold)
  next
    case 7 then show ?thesis by (simp add: unfold)
  next
    case 8 then show ?thesis by (simp add: unfold)
  qed
qed

theorem requirements_per_table_entry_witness:
  "''2.1'' \<in> set SupportedVersions \<and>
   length (GetFileRequirements ''2.1'' \<lparr>Docked = False, Freefloating = False\<rparr>) = 12 \<and>
   list_all (\<lambda>r. \<not> (station_or_vehicle_based (File r) \<and> Required r))
     (GetFileRequirements ''2.1'' \<lparr>Docked = False, Freefloating = False\<rparr>)"
proof -
  have h: "''2.1'' \<in> set SupportedVersions" by (simp add: SupportedVersions_def)
  from requirements_per_table_entry [OF h, of "\<lparr>Docked = False, Freefloating = False\<rparr>"] h
  show ?thesis by (auto simp: list_all_iff)
qed

section \<open>Facts about the orchestrator\<close>

lemma digit_char_inj: "a < 10 \<Longrightarrow> b < 10 \<Longrightarrow> digit_char a = digit_char b \<Longrightarrow> a = b"
  by (simp add: digit_char_def char_of_eq_iff take_bit_nat_eq_self)

lemma itoa_nonempty: "itoa n \<noteq> []"
  by (subst itoa.simps) simp

lemma itoa_inj: "itoa m = itoa n \<Longrightarrow> m = n"
proof (induction m arbitrary: n rule: itoa.induct)
  case (1 m)
  show ?case
  proof (cases "m < 10")
    case True
    with "1.prems" have "itoa n = [digit_char m]" by (subst (asm) itoa.simps) simp
    then have "n < 10" using itoa_nonempty [of "n div 10"]
      by (subst (asm) itoa.simps) (auto split: if_splits)
    with \<open>itoa n = [digit_char m]\<close> have "digit_char n = digit_char m"
      by (subst (asm) itoa.simps) simp
    with True \<open>n < 10\<close> show ?thesis by (auto dest: digit_char_inj)
  next
    case False
    then have m: "itoa m = itoa (m div 10) @ [digit_char (m mod 10)]"
      by (subst itoa.simps) simp
    have "\<not> n < 10"
    proof
      assume "n < 10"
      then have "itoa n = [digit_char n]" by (subst itoa.simps) simp
      with m "1.prems" itoa_nonempty [of "m div 10"] show False by auto
    qed
    then have n: "itoa n = itoa (n div 10) @ [digit_char (n mod 10)]"
      by (subst itoa.simps) simp
    from m n "1.prems" have a: "itoa (m div 10) = itoa (n div 10)"
      and b: "digit_char (m mod 10) = digit_char (n mod 10)" by auto
    from "1.IH" [OF False a] have "m div 10 = n div 10" .
    moreover from b have "m mod 10 = n mod 10"
      using digit_char_inj [of "m mod 10" "n mod 10"] by simp
    ultimately show ?thesis by (metis div_mult_mod_eq)
  qed
qed


lemma validateFile_fst:
  "fst (validateFile env v feedURLs rq fetched) = fst (validateFile env v feedURLs rq [])"
  by (auto simp: validateFile_def Let_def Fetch_logged_def split: prod.splits option.splits sum.splits)

lemma validateFile_snd:
  "snd (validateFile env v feedURLs rq fetched) =
     fetched @ (case map_of feedURLs (File rq) of None \<Rightarrow> [] | Some url \<Rightarrow> [url])"
  by (auto simp: validateFile_def Let_def Fetch_logged_def split: prod.splits option.splits sum.splits)

lemma validateGBFS_fetches:
  "snd (validateGBFS env v url f0) =
     f0 @ (if fr_Error (Fetch (http env) url) \<noteq> None \<and> \<not> HasSuffix url ''gbfs.json''
           then [url, BuildFeedURL url ''gbfs''] else [url])"
  by (simp add: validateGBFS_def Let_def Fetch_logged_def split: sum.splits)

lemma validateFiles_fold:
  "fold (\<lambda>rq (results, fetched).
            case validateFile env v feedURLs rq fetched of
              (result, fetched') \<Rightarrow> (AList.update (File rq) result results, fetched')) reqs (acc, f) =
   (fold (\<lambda>rq. AList.update (File rq) (fst (validateFile env v feedURLs rq []))) reqs acc,
    f @ List.map_filter (\<lambda>rq. map_of feedURLs (File rq)) reqs)"
proof (induction reqs arbitrary: acc f)
  case Nil
  then show ?case by (simp add: List.map_filter_simps)
next
  case (Cons rq reqs)
  have step: "validateFile env v feedURLs rq f =
      (fst (validateFile env v feedURLs rq []),
       f @ (case map_of feedURLs (File rq) of None \<Rightarrow> [] | Some url \<Rightarrow> [url]))"
    using validateFile_fst [of env v feedURLs rq f] validateFile_snd [of env v feedURLs rq f]
    by (metis prod.collapse)
  show ?case
    by (simp add: step Cons.IH List.map_filter_simps split: option.splits)
qed

lemma validateFiles_eq:
  "validateFiles env v feedURLs reqs f =
   (fold (\<lambda>rq. AList.update (File rq) (fst (validateFile env v feedURLs rq []))) reqs [],
    f @ List.map_filter (\<lambda>rq. map_of feedURLs (File rq)) reqs)"
  unfolding validateFiles_def by (rule validateFiles_fold)

lemma map_of_fold_update_other:
  "k \<notin> set (map File reqs) \<Longrightarrow>
   map_of (fold (\<lambda>rq. AList.update (File rq) (g rq)) reqs acc) k = map_of acc k"
  by (induction reqs arbitrary: acc) (auto simp: update_conv')

lemma map_of_fold_update_mem:
  "distinct (map File reqs) \<Longrightarrow> rq \<in> set reqs \<Longrightarrow>
   map_of (fold (\<lambda>rq. AList.update (File rq) (g rq)) reqs acc) (File rq) = Some (g rq)"
proof (induction reqs arbitrary: acc)
  case Nil
  then show ?case by simp
next
  case (Cons a reqs)
  show ?case
  proof (cases "rq = a")
    case True
    with Cons.prems have "File rq \<notin> set (map File reqs)" by auto
    then show ?thesis using True by (simp add: map_of_fold_update_other update_conv')
  next
    case False
    with Cons show ?thesis by auto
  qed
qed

lemma GetFileRequirements_cases:
  "GetFileRequirements ver opts \<in>
     {files_1_0 opts, files_1_1 opts, files_2_1 opts, files_3_0 opts, files_3_1_RC2 opts}"
  by (simp add: GetFileRequirements_def Configs_def)

lemma GetFileRequirements_distinct: "distinct (map File (GetFileRequirements ver opts))"
  using GetFileRequirements_cases [of ver opts]
  by (auto simp: files_defs req_def)

lemma station_requirements:
  "req ''station_information'' (Docked opts) \<in> set (GetFileRequirements ver opts)"
  "req ''station_status'' (Docked opts) \<in> set (GetFileRequirements ver opts)"
  using GetFileRequirements_cases [of ver opts]
  by (auto simp: files_defs)

lemma map_of_fold_feeds_other:
  "k \<notin> set (map feed_Name fs) \<Longrightarrow>
   map_of (fold (\<lambda>f urls. AList.update (feed_Name f) (feed_URL f) urls) fs acc) k = map_of acc k"
  by (induction fs arbitrary: acc) (auto simp: update_conv')

lemma map_of_buildFeedURLMap_None:
  "k \<notin> set (map feed_Name (gbfs_Feeds feed)) \<Longrightarrow> map_of (buildFeedURLMap feed) k = None"
  unfolding buildFeedURLMap_def by (subst map_of_fold_feeds_other) simp_all

lemma validateFile_missing_required:
  "map_of feedURLs name = None \<Longrightarrow>
   fst (validateFile env v feedURLs (req name True) f) = missing_required name"
  by (simp add: validateFile_def Let_def req_def missing_required_def new_result_def)

lemma usable_raw_Some:
  "usable_raw results k = Some raw \<Longrightarrow>
   \<exists>r. map_of results k = Some r \<and> r_Exists r \<and> r_RawData r = Some raw"
  by (auto simp: usable_raw_def split: option.splits if_splits)

lemma keep_vehicleTypeRefs:
  "map_of results k = Some r \<Longrightarrow> \<not> r_Exists r \<Longrightarrow>
   map_of (validateVehicleTypeReferences env results vts ver) k = Some r"
  by (auto simp: validateVehicleTypeReferences_def Let_def update_conv'
      dest!: usable_raw_Some split: option.splits sum.splits)

lemma keep_pricingPlanRefs:
  "map_of results k = Some r \<Longrightarrow> \<not> r_Exists r \<Longrightarrow>
   map_of (validatePricingPlanReferences env results pps) k = Some r"
  by (auto simp: validatePricingPlanReferences_def Let_def update_conv'
      dest!: usable_raw_Some split: option.splits sum.splits)

lemma keep_stationIDRefs:
  "map_of results k = Some r \<Longrightarrow> \<not> r_Exists r \<Longrightarrow>
   map_of (validateStationIDReferences env results sids) k = Some r"
  by (auto simp: validateStationIDReferences_def Let_def update_conv'
      dest!: usable_raw_Some split: option.splits sum.splits)

lemma keep_escalate:
  "k \<noteq> name \<Longrightarrow> map_of (escalate name msg results) k = map_of results k"
  by (simp add: escalate_def Let_def update_conv')

lemma keep_conditionalVehicleTypes:
  "k \<noteq> ''vehicle_types'' \<Longrightarrow>
   map_of (checkConditionalVehicleTypes env results ver) k = map_of results k"
  by (simp add: checkConditionalVehicleTypes_def Let_def keep_escalate
      split: option.splits sum.splits)

lemma keep_conditionalPricingPlans:
  "k \<noteq> ''system_pricing_plans'' \<Longrightarrow>
   map_of (checkConditionalPricingPlans env results ver) k = map_of results k"
  by (simp add: checkConditionalPricingPlans_def Let_def keep_escalate
      split: option.splits sum.splits)

lemma crossValidate_keeps_absent:
  assumes "map_of results k = Some r" and "\<not> r_Exists r"
    and "k \<noteq> ''vehicle_types''" and "k \<noteq> ''system_pricing_plans''"
  shows "map_of (crossValidate env results ver) k = Some r"
  using assms
  by (simp add: crossValidate_def Let_def keep_conditionalPricingPlans
      keep_conditionalVehicleTypes keep_stationIDRefs keep_pricingPlanRefs keep_vehicleTypeRefs)

lemma aggregate_files:
  "vr_Files (fst (fold aggregate_step frs (res, n))) = vr_Files res @ frs"
  by (induction frs arbitrary: res n) (auto simp: aggregate_step_def Let_def)

lemma Validate_files:
  assumes "validateGBFS env v gbfsURL fetched0 = ((gbfsResult, Some feed, None), fetched1)"
  shows "\<exists>r fetched. Validate env v gbfsURL fetched0 = ((Some r, None), fetched) \<and>
     vr_Files r = gbfsResult #
       map snd (crossValidate env
         (fst (validateFiles env v (buildFeedURLMap feed)
            (GetFileRequirements
               (if o_Version (v_options v) = [] then
                  (if gbfs_Version feed = [] then ''1.0'' else gbfs_Version feed)
                else o_Version (v_options v))
               \<lparr>Docked = o_Docked (v_options v), Freefloating = o_Freefloating (v_options v)\<rparr>)
            fetched1))
         (if o_Version (v_options v) = [] then
            (if gbfs_Version feed = [] then ''1.0'' else gbfs_Version feed)
          else o_Version (v_options v)))"
proof -
  have ag: "vr_Files res' = vr_Files res @ frs"
    if "fold aggregate_step frs (res, n) = (res', n')" for frs res res' and n n' :: int
    using aggregate_files [of frs res n] that by simp
  show ?thesis
    unfolding Validate_def Let_def assms
    apply (simp only: prod.case option.case if_False simp_thms split: prod.splits)
    apply (auto dest!: ag)
    done
qed

text \<open>
  Claim C4. When the manifest was fetched and decoded, declares \<^verbatim>\<open>system_information\<close>
  only, and the docked flag is set, the report holds a result for
  \<^verbatim>\<open>station_information.json\<close> and one for \<^verbatim>\<open>station_status.json\<close>, each required, not
  existing and carrying an issue of severity Error. This holds for every version,
  supported or not, and whatever the fetch of \<^verbatim>\<open>system_information\<close> gives.
\<close>

theorem docked_station_documents_reported:
  assumes "validateGBFS env v gbfsURL fetched0 = ((gbfsResult, Some feed, None), fetched1)"
    and "map feed_Name (gbfs_Feeds feed) = [''system_information'']"
    and "o_Docked (v_options v)"
  shows "\<exists>r fetched. Validate env v gbfsURL fetched0 = ((Some r, None), fetched) \<and>
    (\<exists>fr \<in> set (vr_Files r). r_File fr = ''station_information.json'' \<and> r_Required fr \<and>
        \<not> r_Exists fr \<and> list_ex is_error_issue (r_Errors fr)) \<and>
    (\<exists>fr \<in> set (vr_Files r). r_File fr = ''station_status.json'' \<and> r_Required fr \<and>
        \<not> r_Exists fr \<and> list_ex is_error_issue (r_Errors fr))"
proof -
  define ver where "ver = (if o_Version (v_options v) = [] then
      (if gbfs_Version feed = [] then ''1.0'' else gbfs_Version feed) else o_Version (v_options v))"
  define opts where "opts = \<lparr>Docked = o_Docked (v_options v),
      Freefloating = o_Freefloating (v_options v)\<rparr>"
  define urls where "urls = buildFeedURLMap feed"
  define rs0 where "rs0 = fst (validateFiles env v urls (GetFileRequirements ver opts) fetched1)"
  from Validate_files [OF assms(1)] obtain r fetched where
    V: "Validate env v gbfsURL fetched0 = ((Some r, None), fetched)"
    and F: "vr_Files r = gbfsResult # map snd (crossValidate env rs0 ver)"
    unfolding ver_def opts_def urls_def rs0_def by blast
  have d: "Docked opts" using assms(3) by (simp add: opts_def)
  have present: "\<exists>fr \<in> set (vr_Files r). fr = missing_required name"
    if mem: "req name True \<in> set (GetFileRequirements ver opts)"
      and nm: "name \<notin> set (map feed_Name (gbfs_Feeds feed))"
      and k1: "name \<noteq> ''vehicle_types''" and k2: "name \<noteq> ''system_pricing_plans''"
    for name
  proof -
    have none: "map_of urls name = None"
      unfolding urls_def using nm by (rule map_of_buildFeedURLMap_None)
    have "map_of rs0 (File (req name True)) =
        Some (fst (validateFile env v urls (req name True) []))"
      unfolding rs0_def validateFiles_eq fst_conv
      by (rule map_of_fold_update_mem [OF GetFileRequirements_distinct mem])
    then have "map_of rs0 name = Some (missing_required name)"
      by (simp add: req_def validateFile_missing_required [OF none, unfolded req_def])
    moreover have "\<not> r_Exists (missing_required name :: 'a FileValidationResult)"
      by (simp add: missing_required_def new_result_def)
    ultimately have "map_of (crossValidate env rs0 ver) name = Some (missing_required name)"
      using k1 k2 by (intro crossValidate_keeps_absent)
    then have "missing_required name \<in> set (map snd (crossValidate env rs0 ver))"
      by (metis map_of_SomeD set_zip_rightD zip_map_fst_snd)
    then show ?thesis by (simp add: F)
  qed
  have si: "\<exists>fr \<in> set (vr_Files r). fr = missing_required ''station_information''"
    using station_requirements(1) [of opts ver] d assms(2) by (intro present) simp_all
  have ss: "\<exists>fr \<in> set (vr_Files r). fr = missing_required ''station_status''"
    using station_requirements(2) [of opts ver] d assms(2) by (intro present) simp_all
  have props: "r_File (missing_required name :: 'a FileValidationResult) = name @ ''.json'' \<and>
      r_Required (missing_required name :: 'a FileValidationResult) \<and>
      \<not> r_Exists (missing_required name :: 'a FileValidationResult) \<and>
      list_ex is_error_issue (r_Errors (missing_required name :: 'a FileValidationResult))" for name
    by (simp add: missing_required_def new_result_def verr_def is_error_issue_def)
  from si props [of "''station_information''"] ss props [of "''station_status''"] V
  show ?thesis by auto
qed

text \<open>
  The run of the repository's test \<^verbatim>\<open>TestValidateMissingRequiredFile\<close>, with the docked
  flag set: the manifest lists \<^verbatim>\<open>system_information\<close> only, and every other URL
  answers 404.
\<close>

theorem docked_station_documents_reported_witness:
  "\<exists>r fetched.
     Validate env_si_only (New (strict_options\<lparr>o_Docked := True\<rparr>)) ''http://feed.test/gbfs.json'' [] =
       ((Some r, None), fetched) \<and>
     (\<exists>fr \<in> set (vr_Files r). r_File fr = ''station_information.json'' \<and> r_Required fr \<and>
        \<not> r_Exists fr \<and> list_ex is_error_issue (r_Errors fr)) \<and>
     (\<exists>fr \<in> set (vr_Files r). r_File fr = ''station_status.json'' \<and> r_Required fr \<and>
        \<not> r_Exists fr \<and> list_ex is_error_issue (r_Errors fr))"
proof -
  let ?v = "New (strict_options\<lparr>o_Docked := True\<rparr>)"
  have "\<exists>g f1. validateGBFS env_si_only ?v ''http://feed.test/gbfs.json'' [] =
      ((g, Some manifest_si_only, None), f1)"
    by (simp add: validateGBFS_def Let_def Fetch_logged_def Fetch_def env_si_only_def
        stub_env_def empty_FetchResult_def decode_body_def HasSuffix_def)
  then obtain g f1 where h1: "validateGBFS env_si_only ?v ''http://feed.test/gbfs.json'' [] =
      ((g, Some manifest_si_only, None), f1)" by blast
  have h2: "map feed_Name (gbfs_Feeds manifest_si_only) = [''system_information'']"
    by (simp add: manifest_si_only_def)
  have h3: "o_Docked (v_options ?v)" by (simp add: New_def strict_options_def)
  from docked_station_documents_reported [OF h1 h2 h3] show ?thesis .
qed

lemma Validate_fetches:
  "snd (Validate env v url f0) =
     snd (validateGBFS env v url f0) @
       (case fst (validateGBFS env v url f0) of
          (g, Some feed, None) \<Rightarrow> document_fetches v feed
        | _ \<Rightarrow> [])"
  by (cases "validateGBFS env v url f0")
     (auto simp: Validate_def Let_def validateFiles_eq document_fetches_def effective_version_def
       split: prod.splits option.splits)

text \<open>
  Claim C8. A retry is a second fetch after a fetch that failed. \<^verbatim>\<open>validateGBFS\<close>
  fetches the manifest URL and, when that fetch returned an error and the URL does not end
  in \<^verbatim>\<open>gbfs.json\<close>, fetches once more, at the URL \<^verbatim>\<open>BuildFeedURL\<close> derives from it; in
  every other case it fetches once. A not-found answer (status 404) is no error, so it is
  never followed by a second fetch. A worker of \<^verbatim>\<open>validateFiles\<close> fetches its document
  once when the manifest lists it and never otherwise, and a whole run makes the fetches
  of the manifest followed by one fetch per listed requirement: no fetch is repeated.
\<close>

theorem only_retry_is_manifest_fallback:
  "snd (validateGBFS env v url f0) =
     f0 @ (if fr_Error (Fetch (http env) url) \<noteq> None \<and> \<not> HasSuffix url ''gbfs.json''
           then [url, BuildFeedURL url ''gbfs''] else [url]) \<and>
   (http env url = Response 404 body \<longrightarrow> snd (validateGBFS env v url f0) = f0 @ [url]) \<and>
   snd (validateFile env v feedURLs rq f0) =
     f0 @ (case map_of feedURLs (File rq) of None \<Rightarrow> [] | Some u \<Rightarrow> [u]) \<and>
   snd (Validate env v url f0) =
     snd (validateGBFS env v url f0) @
       (case fst (validateGBFS env v url f0) of
          (g, Some feed, None) \<Rightarrow> document_fetches v feed
        | _ \<Rightarrow> [])"
proof -
  have nf: "snd (validateGBFS env v url f0) = f0 @ [url]" if "http env url = Response 404 body"
    using that by (simp add: validateGBFS_fetches Fetch_def Let_def empty_FetchResult_def)
  show ?thesis
    using validateGBFS_fetches [of env v url f0] validateFile_snd [of env v feedURLs rq f0]
      Validate_fetches [of env v url f0] nf by blast
qed

text \<open>
  A manifest URL that does not end in \<^verbatim>\<open>gbfs.json\<close> and fails with a transport error: the
  run fetches it, then the derived URL, then the one listed document. A URL that answers
  404 is fetched once.
\<close>

theorem only_retry_is_manifest_fallback_witness:
  "snd (Validate env_fallback (New strict_options) ''http://feed.test/v3'' []) =
     [''http://feed.test/v3'', ''http://feed.test/v3/gbfs.json'',
      ''http://feed.test/system_information.json''] \<and>
   snd (validateGBFS env_fallback (New strict_options) ''http://feed.test/missing'' []) =
     [''http://feed.test/missing'']"
proof -
  have a: "fr_Error (Fetch (http env_fallback) ''http://feed.test/v3'') \<noteq> None"
    by (simp add: env_fallback_def stub_env_def Fetch_def Let_def empty_FetchResult_def)
  have b: "\<not> HasSuffix ''http://feed.test/v3'' ''gbfs.json''"
    by (simp add: HasSuffix_def)
  have c: "BuildFeedURL ''http://feed.test/v3'' ''gbfs'' = ''http://feed.test/v3/gbfs.json''"
    by (simp add: BuildFeedURL_def HasSuffix_def)
  have d: "fst (validateGBFS env_fallback (New strict_options) ''http://feed.test/v3'' []) =
      (((new_result ''gbfs.json'' True)\<lparr>r_URL := ''http://feed.test/v3/gbfs.json'',
          r_Recommended := True, r_Exists := True, r_RawData := Some ''manifest''\<rparr>),
       Some manifest_si_only, None)"
    by (simp add: validateGBFS_def Let_def Fetch_logged_def Fetch_def env_fallback_def
        stub_env_def empty_FetchResult_def decode_body_def HasSuffix_def BuildFeedURL_def
        validateGBFSStructure_def manifest_si_only_def gbfs_feed_issues_def)
  have e: "document_fetches (New strict_options) manifest_si_only =
      [''http://feed.test/system_information.json'']"
    by (simp add: document_fetches_def effective_version_def New_def strict_options_def
        manifest_si_only_def buildFeedURLMap_def GetFileRequirements_def Configs_def
        files_defs req_def List.map_filter_simps)
  have f: "http env_fallback ''http://feed.test/missing'' = Response 404 (Inr [])"
    by (simp add: env_fallback_def stub_env_def)
  from only_retry_is_manifest_fallback [of env_fallback "New strict_options"
      "''http://feed.test/v3''" "[]" "Inr []" "[]" "req [] False"] a b c d e
  have 1: "snd (Validate env_fallback (New strict_options) ''http://feed.test/v3'' []) =
     [''http://feed.test/v3'', ''http://feed.test/v3/gbfs.json'',
      ''http://feed.test/system_information.json'']" by simp
  have "http env_fallback ''http://feed.test/missing'' = Response 404 (Inr []) \<longrightarrow>
      snd (validateGBFS env_fallback (New strict_options) ''http://feed.test/missing'' []) =
        [] @ [''http://feed.test/missing'']"
    by (rule conjunct1 [OF conjunct2 [OF only_retry_is_manifest_fallback]])
  with f
  have 2: "snd (validateGBFS env_fallback (New strict_options) ''http://feed.test/missing'' []) =
     [''http://feed.test/missing'']" by simp
  from 1 2 show ?thesis by simp
qed

lemma unreachable_manifest_run:
  "Validate stub_env (New strict_options) ''http://feed.test/gbfs.json'' [] =
     ((Some \<lparr>vr_Summary = zero_Summary\<lparr>ValidatorVersion := ''1.0.0'',
               VersionUnimplemented := True\<rparr>,
             vr_Files = [(new_result ''gbfs.json'' True)
               \<lparr>r_URL := ''http://feed.test/gbfs.json'', r_Recommended := True,
                r_HasErrors := True, r_ErrorsCount := 1,
                r_Errors := [verr SeverityError ''gbfs.json is required but not found'' []]\<rparr>]\<rparr>,
       None), [''http://feed.test/gbfs.json''])"
  by (simp add: Validate_def validateGBFS_def Let_def Fetch_logged_def Fetch_def stub_env_def
      strict_options_def New_def empty_FetchResult_def HasSuffix_def IsGBFSRequired_def
      Configs_def zero_Summary_def new_result_def)

lemma negative_ttl_manifest:
  "validateGBFS env_negative_ttl (New strict_options) ''http://feed.test/gbfs.json'' [] =
    (((new_result ''gbfs.json'' True)
               \<lparr>r_URL := ''http://feed.test/gbfs.json'', r_Recommended := True,
                r_Exists := True, r_RawData := Some ''manifest'',
                r_HasErrors := True, r_Errors := [verr SeverityError ''ttl must be non-negative'' ''/ttl''],
                r_ErrorsCount := 1\<rparr>, Some manifest_negative_ttl, None),
     [''http://feed.test/gbfs.json''])"
  by (simp add: validateGBFS_def Let_def Fetch_logged_def Fetch_def env_negative_ttl_def stub_env_def
      empty_FetchResult_def HasSuffix_def decode_body_def validateGBFSStructure_def
      manifest_negative_ttl_def gbfs_feed_issues_def new_result_def)

lemma negative_ttl_run:
  "\<exists>r f. Validate env_negative_ttl (New strict_options) ''http://feed.test/gbfs.json'' [] =
     ((Some r, None), f) \<and> recorded_issues r = 1 \<and> s_HasErrors (vr_Summary r) \<and>
     s_ErrorsCount (vr_Summary r) = 0"
  apply (simp add: Validate_def negative_ttl_manifest Let_def)
  apply (simp add: New_def strict_options_def manifest_negative_ttl_def
      GetFileRequirements_def Configs_def files_defs req_def buildFeedURLMap_def
      validateFiles_def validateFile_def Let_def Fetch_logged_def Fetch_def
      env_negative_ttl_def stub_env_def empty_FetchResult_def new_result_def
      validateFileStructure_def system_information_doc_def require_key_def
      validateSystemInformation_def as_obj_def update_conv')
  apply (simp add: crossValidate_def Let_def extractVehicleTypes_def extractPricingPlans_def
      extractStationIDs_def usable_raw_def validateVehicleTypeReferences_def
      validatePricingPlanReferences_def validateStationIDReferences_def
      checkConditionalVehicleTypes_def checkConditionalPricingPlans_def
      GetVehicleStatusFileName_def IsV3OrLater_def aggregate_step_def zero_Summary_def
      recorded_issues_def verr_def)
  done

text \<open>
  Claim C1 fails on the code, in two runs. An unreachable manifest ends the run early:
  the report holds the result of \<^verbatim>\<open>gbfs.json\<close> with its Error issue, yet the summary
  says no errors and counts none. A manifest that decodes with a negative \<^verbatim>\<open>ttl\<close> gets
  an Error issue; the summary's flag is set, but its count adds up the results of the
  other documents only and stays 0.
\<close>

theorem summary_misses_manifest_issues:
  "(\<exists>r f. Validate stub_env (New strict_options) ''http://feed.test/gbfs.json'' [] =
       ((Some r, None), f) \<and>
     recorded_issues r = 1 \<and> list_ex r_HasErrors (vr_Files r) \<and>
     \<not> s_HasErrors (vr_Summary r) \<and> s_ErrorsCount (vr_Summary r) = 0) \<and>
   (\<exists>r f. Validate env_negative_ttl (New strict_options) ''http://feed.test/gbfs.json'' [] =
       ((Some r, None), f) \<and>
     recorded_issues r = 1 \<and> s_HasErrors (vr_Summary r) \<and>
     s_ErrorsCount (vr_Summary r) = 0)"
proof -
  have "\<exists>r f. Validate stub_env (New strict_options) ''http://feed.test/gbfs.json'' [] =
       ((Some r, None), f) \<and>
     recorded_issues r = 1 \<and> list_ex r_HasErrors (vr_Files r) \<and>
     \<not> s_HasErrors (vr_Summary r) \<and> s_ErrorsCount (vr_Summary r) = 0"
    by (simp add: unreachable_manifest_run recorded_issues_def zero_Summary_def)
  with negative_ttl_run show ?thesis by blast
qed

section \<open>Facts about cross-reference validation\<close>





lemma filter_concat_none:
  "(\<And>x. x \<in> set xs \<Longrightarrow> filter P (f x) = []) \<Longrightarrow> filter P (concat (map f xs)) = []"
  by (induction xs) simp_all

lemma enumerate_split:
  "i < length xs \<Longrightarrow>
   enumerate n xs = enumerate n (take i xs) @ (n + i, xs ! i) # enumerate (Suc (n + i)) (drop (Suc i) xs)"
proof -
  assume i: "i < length xs"
  then have "xs = take i xs @ xs ! i # drop (Suc i) xs"
    by (simp add: id_take_nth_drop)
  then have "enumerate n xs = enumerate n (take i xs @ xs ! i # drop (Suc i) xs)" by simp
  also have "\<dots> = enumerate n (take i xs) @ (n + i, xs ! i) # enumerate (Suc (n + i)) (drop (Suc i) xs)"
    using i by (simp add: enumerate_append_eq min_def)
  finally show ?thesis .
qed









section \<open>Facts about the normalizer\<close>

lemma log_appendingI:
  "(\<And>m lg. step (m, lg) = (fst (step (m, [])), lg @ snd (step (m, [])))) \<Longrightarrow> log_appending step"
  unfolding log_appending_def by blast

lemma log_appendingD:
  "log_appending step \<Longrightarrow> step (m, lg) = (fst (step (m, [])), lg @ snd (step (m, [])))"
  unfolding log_appending_def by blast

lemma log_appending_id: "log_appending (\<lambda>st. st)"
  by (simp add: log_appending_def)

lemma log_appending_comp:
  assumes "log_appending f" and "log_appending g"
  shows "log_appending (\<lambda>st. g (f st))"
proof (rule log_appendingI)
  fix m lg
  obtain m1 l1 where f0: "f (m, []) = (m1, l1)" by (cases "f (m, [])")
  obtain m2 l2 where g0: "g (m1, []) = (m2, l2)" by (cases "g (m1, [])")
  have f: "f (m, lg) = (m1, lg @ l1)" using log_appendingD [OF assms(1), of m lg] f0 by simp
  have g: "g (m1, lg') = (m2, lg' @ l2)" for lg'
    using log_appendingD [OF assms(2), of m1 lg'] g0 by simp
  show "g (f (m, lg)) = (fst (g (f (m, []))), lg @ snd (g (f (m, []))))"
    by (simp add: f f0 g)
qed

lemma log_appending_fold:
  assumes "\<And>x. x \<in> set xs \<Longrightarrow> log_appending (step x)"
  shows "log_appending (fold step xs)"
  using assms
proof (induction xs)
  case Nil
  show ?case by (simp add: log_appending_def)
next
  case (Cons x xs)
  have "log_appending (\<lambda>st. fold step xs (step x st))"
    by (rule log_appending_comp) (simp_all add: Cons)
  then show ?case by (simp add: comp_def)
qed

lemma log_appending_opt_step: "log_appending f \<Longrightarrow> log_appending (opt_step b f)"
proof (cases b)
  case True
  then have "opt_step b f = f" by (simp add: opt_step_def fun_eq_iff)
  then show "log_appending f \<Longrightarrow> log_appending (opt_step b f)" by simp
next
  case False
  then have "opt_step b f = (\<lambda>st. st)" by (simp add: opt_step_def fun_eq_iff)
  then show "log_appending f \<Longrightarrow> log_appending (opt_step b f)" by (simp add: log_appending_id)
qed

lemma log_appending_coerce_field: "log_appending (coerce_field g p f)"
  by (simp add: log_appending_def coerce_field_def split: option.splits prod.splits)

lemma log_appending_delete_nulls: "log_appending (\<lambda>(m, lg). (delete_nulls m, lg))"
  by (simp add: log_appending_def)

lemma log_appending_run_fields: "log_appending (run_fields p ops)"
  unfolding run_fields_def
  by (rule log_appending_fold) (auto simp: log_appending_coerce_field)

lemma log_appending_then_opt:
  "log_appending f \<Longrightarrow> log_appending g \<Longrightarrow> log_appending (\<lambda>st. opt_step b g (f st))"
  by (rule log_appending_comp) (simp_all add: log_appending_opt_step)

lemmas log_appending_intros =
  log_appending_then_opt log_appending_id log_appending_fold log_appending_coerce_field
  log_appending_delete_nulls log_appending_run_fields

lemma log_appending_stationStatus_step: "log_appending (stationStatus_step env opts i)"
  unfolding stationStatus_step_def [abs_def] Let_def by (intro log_appending_intros)

lemma log_appending_stationInformation_step: "log_appending (stationInformation_step env opts i)"
  unfolding stationInformation_step_def [abs_def] Let_def by (intro log_appending_intros)

lemma log_appending_vehicleStatus_step: "log_appending (vehicleStatus_step env opts k i)"
  unfolding vehicleStatus_step_def [abs_def] Let_def by (intro log_appending_intros)

lemma log_appending_vehicleTypes_step: "log_appending (vehicleTypes_step env opts i)"
  unfolding vehicleTypes_step_def [abs_def] Let_def by (intro log_appending_intros)

lemma log_appending_rule_step: "log_appending (rule_step env opts p i)"
  unfolding rule_step_def [abs_def] Let_def by (intro log_appending_intros)

lemma log_appending_coerceCommonFields: "log_appending (coerceCommonFields env opts p)"
  unfolding coerceCommonFields_def [abs_def] Let_def by (intro log_appending_intros)

lemma coerce_entries_eq:
  assumes "\<And>j. log_appending (step j)"
  shows "coerce_entries step n xs lg =
    (map (entry_result step) (enumerate n xs), lg @ concat (map (entry_log step) (enumerate n xs)))"
proof (induction xs arbitrary: n lg)
  case Nil
  show ?case by simp
next
  case (Cons x xs)
  show ?case
  proof (cases x)
    case (JObj m)
    have "step n (m, lg) = (fst (step n (m, [])), lg @ snd (step n (m, [])))"
      by (rule log_appendingD [OF assms])
    then show ?thesis
      by (simp add: JObj Cons.IH entry_result_def entry_log_def)
  qed (simp_all add: Cons.IH entry_result_def entry_log_def)
qed

lemma logs_at_id: "logs_at p (\<lambda>st. st)"
  by (simp add: logs_at_def)

lemma logs_at_comp:
  assumes "logs_at p F" and "logs_at p G"
  shows "logs_at p (\<lambda>st. G (F st))"
  unfolding logs_at_def
proof (intro allI)
  fix m lg
  obtain m1 l1 where F: "F (m, lg) = (m1, l1)" by (cases "F (m, lg)")
  from assms(1) obtain l where l: "l1 = lg @ l" "list_all (\<lambda>c. c_Path c = p) l"
    unfolding logs_at_def using F by (metis snd_conv)
  from assms(2) obtain l' where l': "snd (G (m1, l1)) = l1 @ l'" "list_all (\<lambda>c. c_Path c = p) l'"
    unfolding logs_at_def by blast
  show "\<exists>l. snd (G (F (m, lg))) = lg @ l \<and> list_all (\<lambda>c. c_Path c = p) l"
    using l l' F by (intro exI [of _ "l @ l'"]) simp
qed

lemma logs_at_opt_step: "logs_at p g \<Longrightarrow> logs_at p (opt_step b g)"
  by (cases b) (simp_all add: opt_step_def [abs_def] logs_at_id)

lemma logs_at_then_opt:
  "logs_at p F \<Longrightarrow> logs_at p g \<Longrightarrow> logs_at p (\<lambda>st. opt_step b g (F st))"
  by (rule logs_at_comp) (simp_all add: logs_at_opt_step)

lemma logs_at_fold:
  assumes "\<And>x. x \<in> set xs \<Longrightarrow> logs_at p (step x)"
  shows "logs_at p (fold step xs)"
  using assms
proof (induction xs)
  case Nil
  show ?case by (simp add: logs_at_def)
next
  case (Cons x xs)
  have "logs_at p (\<lambda>st. fold step xs (step x st))"
    by (rule logs_at_comp) (simp_all add: Cons)
  then show ?case by (simp add: comp_def)
qed

lemma logs_at_coerce_field: "logs_at p (coerce_field g p f)"
  by (simp add: logs_at_def coerce_field_def logCoercion_def split: option.splits prod.splits)

lemma logs_at_delete_nulls: "logs_at p (\<lambda>(m, lg). (delete_nulls m, lg))"
  by (simp add: logs_at_def)

lemmas logs_at_intros =
  logs_at_then_opt logs_at_id logs_at_fold logs_at_coerce_field logs_at_delete_nulls

lemma logs_at_stationStatus_step: "logs_at (station_path i) (stationStatus_step env opts i)"
  unfolding stationStatus_step_def [abs_def] Let_def station_path_def
  by (intro logs_at_intros)

lemma logs_at_coerceCommonFields: "logs_at p (coerceCommonFields env opts p)"
  unfolding coerceCommonFields_def [abs_def] Let_def
  by (intro logs_at_intros)

lemma keeps_id: "keeps f v (\<lambda>st. st)"
  by (simp add: keeps_def)

lemma keeps_comp:
  assumes "keeps f v F" and "keeps f v G"
  shows "keeps f v (\<lambda>st. G (F st))"
  unfolding keeps_def
proof (intro allI impI)
  fix m lg
  assume m: "map_of m f = Some v"
  obtain m1 l1 where F: "F (m, lg) = (m1, l1)" by (cases "F (m, lg)")
  from assms(1) m F obtain l where l: "map_of m1 f = Some v" "l1 = lg @ l"
      "list_all (\<lambda>c. c_Field c \<noteq> f) l"
    unfolding keeps_def by (metis fst_conv snd_conv)
  from assms(2) l(1) obtain l' where l': "map_of (fst (G (m1, l1))) f = Some v"
      "snd (G (m1, l1)) = l1 @ l'" "list_all (\<lambda>c. c_Field c \<noteq> f) l'"
    unfolding keeps_def by blast
  show "map_of (fst (G (F (m, lg)))) f = Some v \<and>
      (\<exists>l. snd (G (F (m, lg))) = lg @ l \<and> list_all (\<lambda>c. c_Field c \<noteq> f) l)"
    using l l' F by (auto intro!: exI [of _ "l @ l'"])
qed

lemma keeps_opt_step: "keeps f v g \<Longrightarrow> keeps f v (opt_step b g)"
  by (cases b) (simp_all add: opt_step_def [abs_def] keeps_id)

lemma keeps_then_opt:
  "keeps f v F \<Longrightarrow> keeps f v g \<Longrightarrow> keeps f v (\<lambda>st. opt_step b g (F st))"
  by (rule keeps_comp) (simp_all add: keeps_opt_step)

lemma keeps_fold:
  assumes "\<And>x. x \<in> set xs \<Longrightarrow> keeps f v (step x)"
  shows "keeps f v (fold step xs)"
  using assms
proof (induction xs)
  case Nil
  show ?case by (simp add: keeps_def)
next
  case (Cons x xs)
  have "keeps f v (\<lambda>st. fold step xs (step x st))"
    by (rule keeps_comp) (simp_all add: Cons)
  then show ?case by (simp add: comp_def)
qed

lemma keeps_coerce_field: "f' \<noteq> f \<Longrightarrow> keeps f v (coerce_field g p f')"
  by (simp add: keeps_def coerce_field_def logCoercion_def update_conv'
      split: option.splits prod.splits)

lemma map_of_delete_nulls:
  "map_of (delete_nulls m) k = (if map_of m k = Some JNull then None else map_of m k)"
proof -
  have "map_of (filter (\<lambda>(k, v). P k) m) k = (if P k then map_of m k else None)" for P
    by (induction m) auto
  from this [of "\<lambda>k. map_of m k \<noteq> Some JNull"] show ?thesis
    by (auto simp: delete_nulls_def)
qed

lemma keeps_delete_nulls: "v \<noteq> JNull \<Longrightarrow> keeps f v (\<lambda>(m, lg). (delete_nulls m, lg))"
  by (simp add: keeps_def map_of_delete_nulls)

lemmas keeps_intros = keeps_then_opt keeps_id keeps_fold keeps_coerce_field keeps_delete_nulls

lemma keeps_data_coerceCommonFields:
  "keeps ''data'' (JObj d) (coerceCommonFields env opts p)"
  unfolding coerceCommonFields_def [abs_def] Let_def
  by (intro keeps_intros) simp_all

lemma filter_concat_enumerate_one:
  assumes i: "i < length xs"
    and other: "\<And>j x. j \<noteq> i \<Longrightarrow> filter P (F (j, x)) = []"
  shows "filter P (concat (map F (enumerate 0 xs))) = filter P (F (i, xs ! i))"
proof -
  have before: "filter P (concat (map F (enumerate 0 (take i xs)))) = []"
  proof (rule filter_concat_none)
    fix x assume "x \<in> set (enumerate 0 (take i xs))"
    then have "fst x < i" by (simp add: in_set_enumerate_eq)
    then obtain j v where x: "x = (j, v)" and "j \<noteq> i" by (cases x) simp
    then show "filter P (F x) = []" unfolding x by (intro other)
  qed
  have after: "filter P (concat (map F (enumerate (Suc i) (drop (Suc i) xs)))) = []"
  proof (rule filter_concat_none)
    fix x assume "x \<in> set (enumerate (Suc i) (drop (Suc i) xs))"
    then have "Suc i \<le> fst x" by (simp add: in_set_enumerate_eq)
    then obtain j v where x: "x = (j, v)" and "j \<noteq> i" by (cases x) simp
    then show "filter P (F x) = []" unfolding x by (intro other)
  qed
  have "filter P (concat (map F (enumerate 0 xs))) =
      filter P (concat (map F (enumerate 0 (take i xs)))) @ filter P (F (i, xs ! i)) @
      filter P (concat (map F (enumerate (Suc i) (drop (Suc i) xs))))"
    by (subst enumerate_split [OF i, of 0]) simp
  then show ?thesis unfolding before after by simp
qed

lemma station_path_inj: "station_path j = station_path i \<Longrightarrow> j = i"
  by (simp add: station_path_def itoa_inj)

lemma station_path_nonempty: "station_path i \<noteq> []"
  by (simp add: station_path_def)

lemma stationStatus_step_split:
  assumes cb: "CoerceBooleans opts"
  shows "\<exists>rest. keeps ''is_installed'' (JBool True) rest \<and>
    (\<forall>st. stationStatus_step env opts i st =
       rest (coerce_field (boolCoercer env) (station_path i) ''is_installed'' st))"
proof -
  let ?p = "station_path i"
  let ?rest = "\<lambda>st. opt_step (TreatNullAsAbsent opts) (\<lambda>(m, lg). (delete_nulls m, lg))
     (opt_step (CoerceTimestamps opts) (coerce_field (coerceTimestamp env) ?p ''last_reported'')
       (opt_step (CoerceNumericStrings opts)
          (fold (coerce_field (intCoercer env) ?p)
             [''num_bikes_available'', ''num_bikes_disabled'', ''num_docks_available'',
              ''num_docks_disabled'', ''num_vehicles_available'',
              ''num_vehicles_disabled'', ''last_reported''])
          (opt_step True
             (fold (coerce_field (boolCoercer env) ?p)
                [''is_renting'', ''is_returning'', ''is_charging_station'']) st)))"
  have "keeps ''is_installed'' (JBool True) ?rest"
    by (intro keeps_intros) auto
  moreover have "stationStatus_step env opts i st =
      ?rest (coerce_field (boolCoercer env) ?p ''is_installed'' st)" for st
    by (simp add: stationStatus_step_def Let_def opt_step_def cb station_path_def)
  ultimately show ?thesis by blast
qed

lemma is_installed_entry:
  assumes cb: "CoerceBooleans opts"
    and low: "ToLower env (TrimSpace env ''1'') = ''1''"
    and m: "map_of station ''is_installed'' = Some (JStr ''1'')"
  shows "map_of (fst (stationStatus_step env opts i (station, []))) ''is_installed'' =
           Some (JBool True) \<and>
         filter (\<lambda>c. c_Field c = ''is_installed'')
           (snd (stationStatus_step env opts i (station, []))) =
         [logCoercion (station_path i) ''is_installed'' (JStr ''1'') (JBool True)]"
proof -
  let ?rec = "logCoercion (station_path i) ''is_installed'' (JStr ''1'') (JBool True)"
  from stationStatus_step_split [OF cb, of env i] obtain rest
    where k: "keeps ''is_installed'' (JBool True) rest"
      and eq: "\<And>st. stationStatus_step env opts i st =
        rest (coerce_field (boolCoercer env) (station_path i) ''is_installed'' st)" by blast
  have first: "coerce_field (boolCoercer env) (station_path i) ''is_installed'' (station, []) =
      (AList.update ''is_installed'' (JBool True) station, [?rec])"
    by (simp add: coerce_field_def m boolCoercer_def coerceToBool_def low)
  have "map_of (AList.update ''is_installed'' (JBool True) station) ''is_installed'' =
      Some (JBool True)" by (simp add: update_conv')
  with k obtain l where
    a: "map_of (fst (rest (AList.update ''is_installed'' (JBool True) station, [?rec])))
      ''is_installed'' = Some (JBool True)"
    and b: "snd (rest (AList.update ''is_installed'' (JBool True) station, [?rec])) = [?rec] @ l"
    and c: "list_all (\<lambda>c. c_Field c \<noteq> ''is_installed'') l"
    unfolding keeps_def by blast
  have "filter (\<lambda>c. c_Field c = ''is_installed'') l = []"
    using c by (induction l) auto
  then show ?thesis
    using a b by (simp add: eq first logCoercion_def)
qed

lemma coerce_document_station_status:
  assumes d: "as_obj (map_of doc ''data'') = Some dataObj"
    and s: "as_arr (map_of dataObj ''stations'') = Some stations"
  shows "\<exists>dc lc. list_all (\<lambda>c. c_Path c = []) lc \<and>
    coerce_document env opts ''station_status'' doc =
      (AList.update ''data''
         (JObj (AList.update ''stations''
            (JArr (map (entry_result (stationStatus_step env opts)) (enumerate 0 stations)))
            dataObj)) dc,
       lc @ concat (map (entry_log (stationStatus_step env opts)) (enumerate 0 stations)))"
proof -
  obtain dc lc where c: "coerceCommonFields env opts [] (doc, []) = (dc, lc)"
    by (cases "coerceCommonFields env opts [] (doc, [])")
  from d have dd: "map_of doc ''data'' = Some (JObj dataObj)"
    by (auto simp: as_obj_def split: option.splits jv.splits)
  from keeps_data_coerceCommonFields [of dataObj env opts "[]"] dd c
  have kd: "map_of dc ''data'' = Some (JObj dataObj)"
    unfolding keeps_def by (metis fst_conv)
  from logs_at_coerceCommonFields [of "[]" env opts] c
  have lp: "list_all (\<lambda>c. c_Path c = []) lc"
    unfolding logs_at_def by (metis append_Nil snd_conv)
  have "coerce_document env opts ''station_status'' doc =
      (AList.update ''data''
         (JObj (AList.update ''stations''
            (JArr (map (entry_result (stationStatus_step env opts)) (enumerate 0 stations)))
            dataObj)) dc,
       lc @ concat (map (entry_log (stationStatus_step env opts)) (enumerate 0 stations)))"
    by (simp add: coerce_document_def c coerceStationStatus_def kd as_obj_def s
        coerce_entries_eq [OF log_appending_stationStatus_step])
  with lp show ?thesis by blast
qed

lemma is_installed_issue_entry:
  "type_issue i ''is_installed'' \<in> set (stationStatus_entry j s) \<longleftrightarrow>
     j = i \<and> (\<exists>st v. s = JObj st \<and> map_of st ''is_installed'' = Some v \<and> \<not> is_bool v)"
proof (cases s)
  case (JObj st)
  show ?thesis
  proof (cases "map_of st ''is_installed''")
    case None
    then show ?thesis
      by (auto simp: JObj stationStatus_entry_def require_key_def bool_field_issue_def
          type_issue_def verr_def station_path_def split: option.splits if_splits)
  next
    case (Some v)
    then show ?thesis
      by (auto simp: JObj stationStatus_entry_def require_key_def bool_field_issue_def
          type_issue_def verr_def station_path_def dest: itoa_inj
          split: option.splits if_splits)
  qed
qed (simp_all add: stationStatus_entry_def)

lemma is_installed_issue_iff:
  "type_issue i ''is_installed'' \<in> set (validateStationStatus doc) \<longleftrightarrow>
     (\<exists>v. station_field doc i ''is_installed'' = Some v \<and> \<not> is_bool v)"
proof (cases "as_obj (map_of doc ''data'')")
  case None
  then show ?thesis by (simp add: validateStationStatus_def station_field_def)
next
  case (Some dataObj)
  show ?thesis
  proof (cases "as_arr (map_of dataObj ''stations'')")
    case None
    then show ?thesis
      using Some by (simp add: validateStationStatus_def station_field_def type_issue_def verr_def)
  next
    case (Some stations)
    have "type_issue i ''is_installed'' \<in> set (validateStationStatus doc) \<longleftrightarrow>
        (\<exists>x \<in> set (enumerate 0 stations). type_issue i ''is_installed'' \<in>
           set (stationStatus_entry (fst x) (snd x)))"
      using \<open>as_obj (map_of doc ''data'') = Some dataObj\<close> Some
      by (auto simp: validateStationStatus_def split_beta)
    also have "\<dots> \<longleftrightarrow> (i < length stations \<and>
        (\<exists>st v. stations ! i = JObj st \<and> map_of st ''is_installed'' = Some v \<and> \<not> is_bool v))"
      by (auto simp: is_installed_issue_entry in_set_enumerate_eq
          intro!: bexI [of _ "(i, stations ! i)"])
    also have "\<dots> \<longleftrightarrow> (\<exists>v. station_field doc i ''is_installed'' = Some v \<and> \<not> is_bool v)"
      using \<open>as_obj (map_of doc ''data'') = Some dataObj\<close> Some
      by (auto simp: station_field_def split: jv.splits)
    finally show ?thesis .
  qed
qed

lemma is_installed_issue_structure:
  "Unmarshal env b = Inr doc \<Longrightarrow>
   type_issue i ''is_installed'' \<in> set (validateFileStructure env b ''station_status'') \<longleftrightarrow>
     (\<exists>v. station_field doc i ''is_installed'' = Some v \<and> \<not> is_bool v)"
  by (simp add: validateFileStructure_def require_key_def type_issue_def [of i "''is_installed''"]
        verr_def is_installed_issue_iff [symmetric])

lemma map_of_reparse_obj:
  "map_of (reparse_obj c m) k = map_option (reparse c) (map_of m k)"
  by (induction m) (auto simp: reparse_obj_def)

lemma as_obj_reparse:
  "as_obj (map_option (reparse c) x) = map_option (reparse_obj c) (as_obj x)"
  by (cases x) (auto simp: as_obj_def reparse_obj_def split: jv.splits)

lemma as_arr_reparse:
  "as_arr (map_option (reparse c) x) = map_option (map (reparse c)) (as_arr x)"
  by (cases x) (auto simp: as_arr_def split: jv.splits)

lemma station_field_reparse:
  "station_field (reparse_obj c doc) i f = map_option (reparse c) (station_field doc i f)"
  by (auto simp: station_field_def map_of_reparse_obj as_obj_reparse as_arr_reparse
      reparse_obj_def [symmetric]
      split: option.splits jv.splits)

lemma filter_path_other:
  "list_all (\<lambda>c. c_Path c = p) l \<Longrightarrow> p \<noteq> q \<Longrightarrow> filter (\<lambda>c. c_Path c = q \<and> R c) l = []"
  by (induction l) auto

lemma filter_path_same:
  "list_all (\<lambda>c. c_Path c = p) l \<Longrightarrow> filter (\<lambda>c. c_Path c = p \<and> R c) l = filter R l"
  by (induction l) auto

lemma entry_log_paths:
  "list_all (\<lambda>c. c_Path c = station_path j) (entry_log (stationStatus_step env opts) (j, x))"
proof (cases x)
  case (JObj m)
  from logs_at_stationStatus_step [of j env opts]
  have "list_all (\<lambda>c. c_Path c = station_path j) (snd (stationStatus_step env opts j (m, [])))"
    unfolding logs_at_def by (metis append_Nil)
  then show ?thesis by (simp add: entry_log_def JObj)
qed (simp_all add: entry_log_def)

text \<open>
  Claim C6. Let a \<^verbatim>\<open>station_status\<close> document hold, in entry \<open>i\<close> of \<^verbatim>\<open>data.stations\<close>,
  the field \<^verbatim>\<open>is_installed\<close> with the string \<^verbatim>\<open>"1"\<close>. Validated as it is (coercion
  disabled), the structural validator emits the Error issue
  \<^verbatim>\<open>is_installed must be a boolean\<close> at \<^verbatim>\<open>/data/stations/i/is_installed\<close>. With
  boolean coercion enabled (whatever the other four switches), \<^verbatim>\<open>Coerce\<close> succeeds when
  the encoder does, the coerced document holds \<^verbatim>\<open>true\<close> in that field, the log holds
  exactly one record for that path and field, from the string \<^verbatim>\<open>"1"\<close> to \<^verbatim>\<open>true\<close>, and
  the structural validator, run on the coerced bytes, does not emit that issue. The
  standard library enters through two facts: \<^verbatim>\<open>ToLower(TrimSpace("1")) = "1"\<close>, and
  the coerced bytes read back as the coerced document.
\<close>

theorem is_installed_string_one:
  fixes env :: "('b, 'f) go_env"
  assumes U: "Unmarshal env b = Inr doc"
    and F: "station_field doc i ''is_installed'' = Some (JStr ''1'')"
  shows "type_issue i ''is_installed'' \<in> set (validateFileStructure env b ''station_status'') \<and>
    (CoerceBooleans opts \<and> ToLower env (TrimSpace env ''1'') = ''1'' \<and>
     coerce_document env opts ''station_status'' doc = (doc1, lg) \<and>
     Marshal env doc1 = Inr b1 \<and>
     Unmarshal env b1 = Inr (reparse_obj (int64_to_float env) doc1) \<longrightarrow>
       Coerce env opts b ''station_status'' = Inr \<lparr>res_Data = b1, res_Log = lg\<rparr> \<and>
       station_field doc1 i ''is_installed'' = Some (JBool True) \<and>
       filter (\<lambda>c. c_Path c = station_path i \<and> c_Field c = ''is_installed'') lg =
         [logCoercion (station_path i) ''is_installed'' (JStr ''1'') (JBool True)] \<and>
       type_issue i ''is_installed'' \<notin> set (validateFileStructure env b1 ''station_status''))"
proof (intro conjI impI)
  show "type_issue i ''is_installed'' \<in> set (validateFileStructure env b ''station_status'')"
    using F by (simp add: is_installed_issue_structure [OF U] is_bool_def)
next
  assume H: "CoerceBooleans opts \<and> ToLower env (TrimSpace env ''1'') = ''1'' \<and>
     coerce_document env opts ''station_status'' doc = (doc1, lg) \<and>
     Marshal env doc1 = Inr b1 \<and>
     Unmarshal env b1 = Inr (reparse_obj (int64_to_float env) doc1)"
  then have cb: "CoerceBooleans opts" and low: "ToLower env (TrimSpace env ''1'') = ''1''"
    and cd: "coerce_document env opts ''station_status'' doc = (doc1, lg)"
    and M: "Marshal env doc1 = Inr b1"
    and U1: "Unmarshal env b1 = Inr (reparse_obj (int64_to_float env) doc1)" by simp_all
  let ?step = "stationStatus_step env opts"
  let ?P = "\<lambda>c. c_Path c = station_path i \<and> c_Field c = ''is_installed''"
  from F obtain dataObj stations station where
    d: "as_obj (map_of doc ''data'') = Some dataObj"
    and s: "as_arr (map_of dataObj ''stations'') = Some stations"
    and i: "i < length stations" and e: "stations ! i = JObj station"
    and m: "map_of station ''is_installed'' = Some (JStr ''1'')"
    by (auto simp: station_field_def split: option.splits if_splits jv.splits)
  from coerce_document_station_status [OF d s, of env opts] cd obtain dc lc where
    lc: "list_all (\<lambda>c. c_Path c = []) lc"
    and doc1: "doc1 = AList.update ''data''
         (JObj (AList.update ''stations''
            (JArr (map (entry_result ?step) (enumerate 0 stations))) dataObj)) dc"
    and lg: "lg = lc @ concat (map (entry_log ?step) (enumerate 0 stations))"
    by auto
  note ent = is_installed_entry [OF cb low m, of i]
  show "Coerce env opts b ''station_status'' = Inr \<lparr>res_Data = b1, res_Log = lg\<rparr>"
    by (simp add: Coerce_def U cd M)
  show sf: "station_field doc1 i ''is_installed'' = Some (JBool True)"
    using i e ent
    by (simp add: doc1 station_field_def update_conv' as_obj_def as_arr_def
        nth_enumerate_eq entry_result_def)
  have "filter ?P lc = []"
    using lc station_path_nonempty [of i] by (intro filter_path_other [of "[]"]) auto
  moreover have "filter ?P (concat (map (entry_log ?step) (enumerate 0 stations))) =
      filter ?P (entry_log ?step (i, stations ! i))"
  proof (rule filter_concat_enumerate_one [OF i])
    fix j :: nat and x :: "'f jv"
    assume "j \<noteq> i"
    then have "station_path j \<noteq> station_path i" by (auto dest: station_path_inj)
    then show "filter ?P (entry_log ?step (j, x)) = []"
      by (intro filter_path_other [OF entry_log_paths])
  qed
  moreover have "filter ?P (entry_log ?step (i, stations ! i)) =
      filter (\<lambda>c. c_Field c = ''is_installed'') (entry_log ?step (i, stations ! i))"
    by (rule filter_path_same [OF entry_log_paths])
  ultimately show "filter ?P lg =
      [logCoercion (station_path i) ''is_installed'' (JStr ''1'') (JBool True)]"
    using ent by (simp add: lg e entry_log_def)
  show "type_issue i ''is_installed'' \<notin> set (validateFileStructure env b1 ''station_status'')"
    by (simp add: is_installed_issue_structure [OF U1] station_field_reparse sf is_bool_def)
qed

lemma int_env_lower_1: "ToLower int_env (TrimSpace int_env ''1'') = ''1''"
  by (simp add: int_env_def to_lower_def trim_space_def ascii_space_def)

lemma station_status_doc_coerced:
  "coerce_document int_env DefaultLenientOptions ''station_status'' station_status_doc =
    ([(''data'', JObj [(''stations'', JArr
        [JObj [(''station_id'', JStr ''s1''), (''is_installed'', JBool True),
               (''is_renting'', JBool True)]])])],
     [logCoercion (station_path 0) ''is_installed'' (JStr ''1'') (JBool True)])"
  by (simp add: coerce_document_def coerceCommonFields_def coerceStationStatus_def
      stationStatus_step_def Let_def opt_step_def DefaultLenientOptions_def
      station_status_doc_def coerce_field_def as_obj_def as_arr_def delete_nulls_def
      boolCoercer_def coerceToBool_def int_env_lower_1 station_path_def)

text \<open>One station with \<^verbatim>\<open>is_installed: "1"\<close>, all coercions enabled.\<close>

theorem is_installed_string_one_witness:
  "type_issue 0 ''is_installed'' \<in>
     set (validateFileStructure int_env station_status_doc ''station_status'') \<and>
   (\<exists>b1 lg. Coerce int_env DefaultLenientOptions station_status_doc ''station_status'' =
        Inr \<lparr>res_Data = b1, res_Log = lg\<rparr> \<and>
      filter (\<lambda>c. c_Path c = station_path 0 \<and> c_Field c = ''is_installed'') lg =
        [logCoercion (station_path 0) ''is_installed'' (JStr ''1'') (JBool True)] \<and>
      type_issue 0 ''is_installed'' \<notin> set (validateFileStructure int_env b1 ''station_status''))"
proof -
  let ?doc1 = "[(''data'', JObj [(''stations'', JArr
        [JObj [(''station_id'', JStr ''s1''), (''is_installed'', JBool True),
               (''is_renting'', JBool True)]])])] :: int jobj"
  let ?lg = "[logCoercion (station_path 0) ''is_installed'' (JStr ''1'') (JBool True)]
    :: int Coercion list"
  have U: "Unmarshal int_env station_status_doc = Inr station_status_doc"
    by (simp add: int_env_def station_status_doc_def)
  have F: "station_field station_status_doc 0 ''is_installed'' = Some (JStr ''1'')"
    by (simp add: station_field_def station_status_doc_def as_obj_def as_arr_def)
  have cb: "CoerceBooleans DefaultLenientOptions" by (simp add: DefaultLenientOptions_def)
  have M: "Marshal int_env ?doc1 = Inr ?doc1" by (simp add: int_env_def)
  have U1: "Unmarshal int_env ?doc1 = Inr (reparse_obj (int64_to_float int_env) ?doc1)"
    by (simp add: int_env_def reparse_obj_def)
  from is_installed_string_one [OF U F, of DefaultLenientOptions ?doc1 ?lg ?doc1 ]
    cb int_env_lower_1 station_status_doc_coerced M U1
  show ?thesis by blast
qed

text \<open>
  Claim C7 fails on the code. With treat-null-as-absent enabled, \<^verbatim>\<open>Coerce\<close> deletes the
  null field at the top level of a \<^verbatim>\<open>vehicle_status\<close> document but keeps the null
  field of its vehicle entry; the same null in an entry of a \<^verbatim>\<open>station_status\<close>
  document is deleted. Only \<^verbatim>\<open>coerceStationStatus\<close> has the deleting loop in its
  loop body.
\<close>

theorem null_fields_kept_in_vehicle_entries:
  "TreatNullAsAbsent DefaultLenientOptions \<and>
   Coerce int_env DefaultLenientOptions vehicle_status_nulls ''vehicle_status'' =
     Inr \<lparr>res_Data =
            [(''data'', JObj [(''vehicles'', JArr
               [JObj [(''vehicle_id'', JStr ''v1''), (''current_range_meters'', JNull)]])])],
          res_Log = []\<rparr> \<and>
   Coerce int_env DefaultLenientOptions station_status_nulls ''station_status'' =
     Inr \<lparr>res_Data =
            [(''data'', JObj [(''stations'', JArr [JObj [(''station_id'', JStr ''s1'')]])])],
          res_Log = []\<rparr>"
  by (simp add: Coerce_def coerce_document_def coerceCommonFields_def coerceStationStatus_def
      coerceVehicleStatus_def vehicleStatus_step_def
      stationStatus_step_def Let_def opt_step_def DefaultLenientOptions_def
      vehicle_status_nulls_def station_status_nulls_def coerce_field_def as_obj_def as_arr_def
      delete_nulls_def int_env_def coerceTimestamp_def intCoercer_def coerceToInt_def
      floatCoercer_def coerceToFloat_def boolCoercer_def coerceToBool_def)

section \<open>Facts about a second pass of the normalizer\<close>
















subsection \<open>The steps as lists of fields\<close>







subsection \<open>The conversions on a document read back\<close>


























subsection \<open>A second pass over what a first pass left\<close>








subsection \<open>The documents as nested steps\<close>









subsection \<open>The loop bodies and the documents, second pass\<close>













subsection \<open>Runs on whole numbers\<close>







subsection \<open>Claims about the second pass\<close>




end
